theory Spec2Isabelle
  imports Complex_Main
begin

section \<open>Values, errors and outcomes\<close>

text \<open>
  The mapper reaches the caller's records through \<open>reflect\<close>. A field value is modelled
  by its kind and payload. \<open>int\<close> and \<open>uint\<close> are taken as 64 bits wide. A slice is
  \<open>None\<close> when it is nil. Floating-point payloads are reals; rounding on a store into a
  \<open>float32\<close> field is not modelled.
\<close>

datatype intKind = KInt | KInt8 | KInt16 | KInt32 | KInt64
datatype uintKind = KUint | KUint8 | KUint16 | KUint32 | KUint64
datatype floatKind = KFloat32 | KFloat64

datatype val =
    VInt intKind int
  | VUint uintKind int
  | VBool bool
  | VFloat floatKind real
  | VString string
  | VSlice "val list option"
  | VStruct "val list"

type_synonym bytes = string

text \<open>\<open>sql.ErrNoRows\<close> is the one error value the code compares against.\<close>

datatype error = ErrNoRows | Err string

text \<open>A call either panics or returns; a Go \<open>error\<close> result is \<open>None\<close> when nil.\<close>

datatype 'a outcome = Panic string | Return 'a

text \<open>An \<open>interface{}\<close> handed to the executor: nil, a byte slice, or a field value.\<close>

datatype param = PNull | PBytes bytes | PVal val

type_synonym stmt = "string \<times> param list"

fun intBits :: "intKind \<Rightarrow> nat" where
  "intBits KInt = 64"
| "intBits KInt8 = 8"
| "intBits KInt16 = 16"
| "intBits KInt32 = 32"
| "intBits KInt64 = 64"

text \<open>Conversion of an \<open>int64\<close> to a signed integer of the given width (two's complement).\<close>

definition wrapInt :: "nat \<Rightarrow> int \<Rightarrow> int" where
  "wrapInt n x = (x + 2 ^ (n - 1)) mod 2 ^ n - 2 ^ (n - 1)"

text \<open>\<open>reflect.Value.Int\<close> and \<open>reflect.Value.SetInt\<close> panic on a value that is not of a
  signed integer kind.\<close>

fun Int_of :: "val \<Rightarrow> int outcome" where
  "Int_of (VInt k x) = Return x"
| "Int_of v = Panic ''reflect: call of reflect.Value.Int on non-int Value''"

fun SetInt :: "val \<Rightarrow> int \<Rightarrow> val outcome" where
  "SetInt (VInt k old) x = Return (VInt k (wrapInt (intBits k) x))"
| "SetInt v x = Panic ''reflect: call of reflect.Value.SetInt on non-int Value''"

fun SetBool :: "val \<Rightarrow> bool \<Rightarrow> val outcome" where
  "SetBool (VBool old) b = Return (VBool b)"
| "SetBool v b = Panic ''reflect: call of reflect.Value.SetBool on non-bool Value''"

fun SetFloat :: "val \<Rightarrow> real \<Rightarrow> val outcome" where
  "SetFloat (VFloat k old) x = Return (VFloat k x)"
| "SetFloat v x = Panic ''reflect: call of reflect.Value.SetFloat on non-float Value''"

fun SetString :: "val \<Rightarrow> string \<Rightarrow> val outcome" where
  "SetString (VString old) s = Return (VString s)"
| "SetString v s = Panic ''reflect: call of reflect.Value.SetString on non-string Value''"

text \<open>\<open>reflect.Zero(reflect.TypeOf(k))\<close>: the zero value of the type of \<open>k\<close>.\<close>

fun zeroOf :: "val \<Rightarrow> val" where
  "zeroOf (VInt k x) = VInt k 0"
| "zeroOf (VUint k x) = VUint k 0"
| "zeroOf (VBool b) = VBool False"
| "zeroOf (VFloat k x) = VFloat k 0"
| "zeroOf (VString s) = VString []"
| "zeroOf (VSlice xs) = VSlice None"
| "zeroOf (VStruct vs) = VStruct (map zeroOf vs)"

text \<open>Comparing two interface values with \<open>==\<close> panics when their type is not comparable:
  a slice, or a struct with such a field.\<close>

fun comparable :: "val \<Rightarrow> bool" and comparables :: "val list \<Rightarrow> bool" where
  "comparable (VSlice xs) = False"
| "comparable (VStruct vs) = comparables vs"
| "comparable v = True"
| "comparables [] = True"
| "comparables (v # vs) = (comparable v \<and> comparables vs)"

definition isZeroValue :: "val \<Rightarrow> bool outcome" where
  "isZeroValue k =
     (if comparable k then Return (k = zeroOf k)
      else Panic ''runtime error: comparing uncomparable type'')"

section \<open>Column metadata and records\<close>

text \<open>
  The \<open>columnInfo\<close> struct and \<open>getColumnInfo\<close>, which fills it from a record type, are
  not among the sources; the fields below are those the table operations read. The
  metadata is a parameter of every operation.
\<close>

record columnInfo =
  indexes :: "nat list list"
  names :: "string list"
  nameToIndex :: "string \<rightharpoonup> nat list"
  aiName :: string
  notAINames :: "string list"
  pkNames :: "string list"
  notPKNames :: "string list"
  jsonNames :: "string list"
  nullableNames :: "string list"

text \<open>A struct value is a store from a field's index path to the field's value.\<close>

type_synonym struct = "nat list \<Rightarrow> val"

text \<open>Indexing a Go map with an absent key gives the zero value, here the nil (empty) path.\<close>

definition indexOf :: "columnInfo \<Rightarrow> string \<Rightarrow> nat list" where
  "indexOf info col = (case nameToIndex info col of None \<Rightarrow> [] | Some p \<Rightarrow> p)"

text \<open>\<open>utils.IndexOfString\<close>: the position of the first occurrence, or \<open>-1\<close>.\<close>

fun IndexOfString :: "string list \<Rightarrow> string \<Rightarrow> int" where
  "IndexOfString [] s = - 1"
| "IndexOfString (x # xs) s =
     (if x = s then 0
      else (let i = IndexOfString xs s in if i < 0 then - 1 else i + 1))"

section \<open>The collaborators\<close>

text \<open>\<open>encoding/json\<close> is a parameter: any pair of functions.\<close>

record codec =
  Marshal :: "val \<Rightarrow> error + bytes"
  Unmarshal :: "bytes \<Rightarrow> val \<Rightarrow> error + val"

text \<open>
  The destinations handed to \<open>Scan\<close>: a byte slice, one of the four nullable wrappers
  of \<open>database/sql\<close> (validity flag first), or the address of the field itself.
\<close>

datatype slot =
    SBytes bytes
  | SNullInt64 bool int
  | SNullBool bool bool
  | SNullFloat64 bool real
  | SNullString bool string
  | SField val

text \<open>A row is its \<open>Scan\<close>: it fills the destinations or fails.\<close>

type_synonym row = "slot list \<Rightarrow> error + slot list"

datatype execResult = ExecResult (LastInsertId: "error + int")

record executor =
  Exec :: "string \<Rightarrow> param list \<Rightarrow> execResult option \<times> error option"
  Query :: "string \<Rightarrow> param list \<Rightarrow> row list option \<times> error option"
  QueryRow :: "string \<Rightarrow> param list \<Rightarrow> row"

record Table =
  exe :: executor
  driverName :: string
  name :: string

section \<open>The value codec, write direction\<close>

definition isEmpty :: "bytes \<Rightarrow> bool" where
  "isEmpty jsonData =
     (jsonData = ''{}'' \<or> jsonData = ''[]'' \<or> jsonData = ''null'' \<or> jsonData = ''NULL'')"

definition getFieldValueByName ::
  "codec \<Rightarrow> struct \<Rightarrow> columnInfo \<Rightarrow> string \<Rightarrow> (param \<times> error option) outcome" where
  "getFieldValueByName js item info col =
     (let k = item (indexOf info col) in
      if IndexOfString (jsonNames info) col \<ge> 0 then
        (case Marshal js k of
           Inl err \<Rightarrow> Return (PNull, Some err)
         | Inr data \<Rightarrow>
             if IndexOfString (nullableNames info) col \<ge> 0 \<and> isEmpty data
             then Return (PNull, None)
             else Return (PBytes data, None))
      else if IndexOfString (nullableNames info) col \<ge> 0 then
        (case isZeroValue k of
           Panic m \<Rightarrow> Panic m
         | Return z \<Rightarrow> if z then Return (PNull, None) else Return (PVal k, None))
      else Return (PVal k, None))"

section \<open>String assembly\<close>

text \<open>\<open>strings.Join(elems, sep)\<close> and \<open>strings.Repeat(s, count)\<close>.\<close>

fun Join :: "string list \<Rightarrow> string \<Rightarrow> string" where
  "Join [] sep = []"
| "Join [x] sep = x"
| "Join (x # y # ys) sep = x @ sep @ Join (y # ys) sep"

fun Repeat :: "string \<Rightarrow> nat \<Rightarrow> string" where
  "Repeat s 0 = []"
| "Repeat s (Suc n) = s @ Repeat s n"

text \<open>\<open>bytes.Buffer.Truncate(n)\<close> panics when \<open>n\<close> is negative or beyond the length.\<close>

definition Truncate :: "string \<Rightarrow> int \<Rightarrow> string outcome" where
  "Truncate buf n =
     (if n < 0 \<or> n > int (length buf) then Panic ''bytes.Buffer: truncation out of range''
      else Return (take (nat n) buf))"

text \<open>
  The \<open>for\<close> statements of \<open>Update\<close> and \<open>mysqlSave\<close> that write \<open>c = ?\<close> for each column, with the
  separator before every column but the first; \<open>i\<close> is the loop index.
\<close>

fun assignments :: "string \<Rightarrow> nat \<Rightarrow> string list \<Rightarrow> string" where
  "assignments sep i [] = []"
| "assignments sep i (c # cs) =
     (if i > 0 then sep else []) @ c @ '' = ?'' @ assignments sep (Suc i) cs"

text \<open>\<open>strings.Replace(s, old, new, 1)\<close> for a non-empty \<open>old\<close>: the first occurrence only.\<close>

fun replaceFirst :: "string \<Rightarrow> string \<Rightarrow> string \<Rightarrow> string" where
  "replaceFirst [] old new = []"
| "replaceFirst (c # cs) old new =
     (if take (length old) (c # cs) = old then new @ drop (length old) (c # cs)
      else c # replaceFirst cs old new)"

section \<open>Insert\<close>

text \<open>
  The loop collecting one parameter per column; it stops at the first encoding failure.
\<close>

fun collectValues ::
  "codec \<Rightarrow> struct \<Rightarrow> columnInfo \<Rightarrow> string list \<Rightarrow> param list \<Rightarrow>
     (param list \<times> error option) outcome" where
  "collectValues js v info [] values = Return (values, None)"
| "collectValues js v info (c # cs) values =
     (case getFieldValueByName js v info c of
        Panic m \<Rightarrow> Panic m
      | Return (fv, Some err) \<Rightarrow> Return ([], Some err)
      | Return (fv, None) \<Rightarrow> collectValues js v info cs (values @ [fv]))"

text \<open>
  The test \<open>len(info.aiName) > 0 && v.FieldByIndex(info.nameToIndex[info.aiName]).Int() == 0\<close>,
  written out in \<open>prepareInsertQuery\<close>, \<open>Insert\<close>, \<open>mysqlSave\<close> and \<open>sqliteSave\<close>.
\<close>

definition aiIsZero :: "struct \<Rightarrow> columnInfo \<Rightarrow> bool outcome" where
  "aiIsZero v info =
     (if length (aiName info) > 0 then
        (case Int_of (v (indexOf info (aiName info))) of
           Panic m \<Rightarrow> Panic m
         | Return x \<Rightarrow> Return (x = 0))
      else Return False)"

text \<open>The text of the statement, as the buffer operations of \<open>prepareInsertQuery\<close> build it.\<close>

definition insertQueryText :: "string \<Rightarrow> string list \<Rightarrow> string outcome" where
  "insertQueryText tn columns =
     (let buf = ''INSERT INTO '' @ tn @ ''('' @ Join columns '', '' @ '') VALUES (''
                  @ Repeat ''?, '' (length columns)
      in case Truncate buf (int (length buf) - 2) of
           Panic m \<Rightarrow> Panic m
         | Return buf' \<Rightarrow> Return (buf' @ '')''))"

definition prepareInsertQuery ::
  "codec \<Rightarrow> Table \<Rightarrow> columnInfo \<Rightarrow> struct \<Rightarrow>
     (string \<times> param list \<times> error option) outcome" where
  "prepareInsertQuery js t info v =
     (case aiIsZero v info of
        Panic m \<Rightarrow> Panic m
      | Return z \<Rightarrow>
          (let columns = (if z then notAINames info else names info) in
           case collectValues js v info columns [] of
             Panic m \<Rightarrow> Panic m
           | Return (values, Some err) \<Rightarrow> Return ([], [], Some err)
           | Return (values, None) \<Rightarrow>
               (case insertQueryText (name t) columns of
                  Panic m \<Rightarrow> Panic m
                | Return query \<Rightarrow> Return (query, values, None))))"

text \<open>
  The statements after \<open>Exec\<close> that copy \<open>result.LastInsertId()\<close> into a zero
  auto-increment field. \<open>result\<close> is \<open>None\<close> when the executor returned a nil result: the
  method call then dereferences nil. \<open>final\<close> is what the operation returns at its end.
  The record is the caller's, reached through a pointer, and is returned updated.
\<close>

definition writeBackId ::
  "execResult option \<Rightarrow> columnInfo \<Rightarrow> struct \<Rightarrow> error option \<Rightarrow>
     error option outcome \<times> struct" where
  "writeBackId result info v final =
     (case aiIsZero v info of
        Panic m \<Rightarrow> (Panic m, v)
      | Return z \<Rightarrow>
          if z then
            (case result of
               None \<Rightarrow> (Panic ''runtime error: invalid memory address or nil pointer dereference'', v)
             | Some r \<Rightarrow>
                 (case LastInsertId r of
                    Inl err \<Rightarrow> (Return (Some err), v)
                  | Inr newId \<Rightarrow>
                      (case SetInt (v (indexOf info (aiName info))) newId of
                         Panic m \<Rightarrow> (Panic m, v)
                       | Return x \<Rightarrow> (Return final, v(indexOf info (aiName info) := x)))))
          else (Return final, v))"

text \<open>
  Every operation returns its outcome, the statements it sent to the executor, and (when
  it takes a record) the caller's record afterwards.
\<close>

definition Insert ::
  "codec \<Rightarrow> Table \<Rightarrow> columnInfo \<Rightarrow> struct \<Rightarrow> error option outcome \<times> stmt list \<times> struct" where
  "Insert js t info v =
     (case prepareInsertQuery js t info v of
        Panic m \<Rightarrow> (Panic m, [], v)
      | Return (query, values, Some err) \<Rightarrow> (Return (Some err), [], v)
      | Return (query, values, None) \<Rightarrow>
          (case Exec (exe t) query values of
             (result, Some err) \<Rightarrow> (Return (Some err), [(query, values)], v)
           | (result, None) \<Rightarrow>
               (let (out, v') = writeBackId result info v None
                in (out, [(query, values)], v'))))"

section \<open>Update\<close>

definition Update ::
  "codec \<Rightarrow> Table \<Rightarrow> columnInfo \<Rightarrow> struct \<Rightarrow> error option outcome \<times> stmt list" where
  "Update js t info v =
     (if length (pkNames info) = 0 then
        (Panic ''no primary key. please use Insert operation'', [])
      else
        (let buf = ''UPDATE '' @ name t @ '' SET '' @ assignments '', '' 0 (notPKNames info)
                     @ '' WHERE '' @ assignments '' and '' 0 (pkNames info)
         in case collectValues js v info (notPKNames info) [] of
              Panic m \<Rightarrow> (Panic m, [])
            | Return (args, Some err) \<Rightarrow> (Return (Some err), [])
            | Return (args, None) \<Rightarrow>
                (let args' = args @ map (\<lambda>c. PVal (v (indexOf info c))) (pkNames info);
                     (result, err) = Exec (exe t) buf args'
                 in (Return err, [(buf, args')]))))"

section \<open>Save\<close>

definition mysqlSave ::
  "codec \<Rightarrow> Table \<Rightarrow> columnInfo \<Rightarrow> struct \<Rightarrow> error option outcome \<times> stmt list \<times> struct" where
  "mysqlSave js t info v =
     (case prepareInsertQuery js t info v of
        Panic m \<Rightarrow> (Panic m, [], v)
      | Return (query, values, Some err) \<Rightarrow> (Return (Some err), [], v)
      | Return (query, values, None) \<Rightarrow>
          (let buf = query @ '' ON DUPLICATE KEY UPDATE '' @ assignments '', '' 0 (names info) in
           case collectValues js v info (names info) values of
             Panic m \<Rightarrow> (Panic m, [], v)
           | Return (values', Some err) \<Rightarrow> (Return (Some err), [], v)
           | Return (values', None) \<Rightarrow>
               (let (result, err) = Exec (exe t) buf values';
                    (out, v') = writeBackId result info v err
                in (out, [(buf, values')], v'))))"

definition sqliteSave ::
  "codec \<Rightarrow> Table \<Rightarrow> columnInfo \<Rightarrow> struct \<Rightarrow> error option outcome \<times> stmt list \<times> struct" where
  "sqliteSave js t info v =
     (case prepareInsertQuery js t info v of
        Panic m \<Rightarrow> (Panic m, [], v)
      | Return (query, values, Some err) \<Rightarrow> (Return (Some err), [], v)
      | Return (query, values, None) \<Rightarrow>
          (let query' = replaceFirst query ''INSERT INTO'' ''INSERT OR REPLACE INTO'';
               (result, err) = Exec (exe t) query' values;
               (out, v') = writeBackId result info v err
           in (out, [(query', values)], v')))"

definition Save ::
  "codec \<Rightarrow> Table \<Rightarrow> columnInfo \<Rightarrow> struct \<Rightarrow> error option outcome \<times> stmt list \<times> struct" where
  "Save js t info v =
     (if driverName t = ''mysql'' then mysqlSave js t info v
      else if driverName t = ''sqlite3'' then sqliteSave js t info v
      else (Panic (''Save operation is not supported for driver: '' @ driverName t), [], v))"

section \<open>The value codec, read direction\<close>

text \<open>
  \<open>utils.DeepNew\<close> of a struct type gives a fresh instance with every field at its zero
  value. The type is given by any value of it.
\<close>

definition DeepNew :: "struct \<Rightarrow> struct" where
  "DeepNew proto = (\<lambda>p. zeroOf (proto p))"

text \<open>
  The destination bound for one column: a byte slice for a JSON column, else a nullable
  wrapper chosen by the kind of the field for a nullable column, else the field's address.
\<close>

definition bindField :: "columnInfo \<Rightarrow> struct \<Rightarrow> string \<Rightarrow> nat list \<Rightarrow> slot outcome" where
  "bindField info elem col idx =
     (if IndexOfString (jsonNames info) col \<ge> 0 then Return (SBytes [])
      else if IndexOfString (nullableNames info) col \<ge> 0 then
        (case elem idx of
           VInt k x \<Rightarrow> Return (SNullInt64 False 0)
         | VUint k x \<Rightarrow> Return (SNullInt64 False 0)
         | VBool b \<Rightarrow> Return (SNullBool False False)
         | VFloat k x \<Rightarrow> Return (SNullFloat64 False 0)
         | VString s \<Rightarrow> Return (SNullString False [])
         | VSlice xs \<Rightarrow> Panic ''invalid nullable type''
         | VStruct vs \<Rightarrow> Panic ''invalid nullable type'')
      else Return (SField (elem idx)))"

text \<open>The loop \<open>for i, idx := range indexes\<close>; \<open>names[i]\<close> panics beyond the length.\<close>

fun bindFields :: "columnInfo \<Rightarrow> struct \<Rightarrow> nat \<Rightarrow> nat list list \<Rightarrow> slot list outcome" where
  "bindFields info elem i [] = Return []"
| "bindFields info elem i (idx # rest) =
     (if i \<ge> length (names info) then Panic ''runtime error: index out of range''
      else
        (case bindField info elem (names info ! i) idx of
           Panic m \<Rightarrow> Panic m
         | Return s \<Rightarrow>
             (case bindFields info elem (Suc i) rest of
                Panic m \<Rightarrow> Panic m
              | Return ss \<Rightarrow> Return (s # ss))))"

text \<open>
  A successful \<open>Scan\<close> has written through the field addresses: the scanned values of the
  directly bound columns are in the fields.
\<close>

fun storeFields :: "struct \<Rightarrow> nat list list \<Rightarrow> slot list \<Rightarrow> struct" where
  "storeFields elem (idx # idxs) (SField x # ss) = storeFields (elem(idx := x)) idxs ss"
| "storeFields elem (idx # idxs) (s # ss) = storeFields elem idxs ss"
| "storeFields elem idxs ss = elem"

definition slotAt :: "slot list \<Rightarrow> int \<Rightarrow> slot outcome" where
  "slotAt fieldAddrs i =
     (if i < 0 \<or> i \<ge> int (length fieldAddrs) then Panic ''runtime error: index out of range''
      else Return (fieldAddrs ! nat i))"

text \<open>The loop over \<open>jsonNames\<close>: deserialize the scanned bytes into the field.\<close>

fun jsonLoop ::
  "codec \<Rightarrow> columnInfo \<Rightarrow> slot list \<Rightarrow> string list \<Rightarrow> struct \<Rightarrow>
     (struct \<times> error option) outcome" where
  "jsonLoop js info fieldAddrs [] elem = Return (elem, None)"
| "jsonLoop js info fieldAddrs (c # cs) elem =
     (let idx = indexOf info c in
      case slotAt fieldAddrs (IndexOfString (names info) c) of
        Panic m \<Rightarrow> Panic m
      | Return (SBytes data) \<Rightarrow>
          (case Unmarshal js data (elem idx) of
             Inl err \<Rightarrow> Return (elem, Some err)
           | Inr x \<Rightarrow> jsonLoop js info fieldAddrs cs (elem(idx := x)))
      | Return other \<Rightarrow> Panic ''interface conversion: interface {} is not []uint8'')"

text \<open>
  The type switch of the loop over \<open>nullableNames\<close>: the value the field has afterwards.
  A wrapper that is not valid leaves the field alone.
\<close>

fun unwrapNullable :: "slot \<Rightarrow> val \<Rightarrow> val outcome" where
  "unwrapNullable (SNullString valid s) fv = (if valid then SetString fv s else Return fv)"
| "unwrapNullable (SNullFloat64 valid x) fv = (if valid then SetFloat fv x else Return fv)"
| "unwrapNullable (SNullBool valid b) fv = (if valid then SetBool fv b else Return fv)"
| "unwrapNullable (SNullInt64 valid x) fv = (if valid then SetInt fv x else Return fv)"
| "unwrapNullable other fv = Panic ''invalid type:''"

text \<open>A nullable wrapper whose \<open>Valid\<close> flag is false.\<close>

fun notPresent :: "slot \<Rightarrow> bool" where
  "notPresent (SNullString valid s) = (\<not> valid)"
| "notPresent (SNullFloat64 valid x) = (\<not> valid)"
| "notPresent (SNullBool valid b) = (\<not> valid)"
| "notPresent (SNullInt64 valid x) = (\<not> valid)"
| "notPresent other = False"

fun nullableLoop :: "columnInfo \<Rightarrow> slot list \<Rightarrow> string list \<Rightarrow> struct \<Rightarrow> struct outcome" where
  "nullableLoop info fieldAddrs [] elem = Return elem"
| "nullableLoop info fieldAddrs (c # cs) elem =
     (let idx = indexOf info c in
      case slotAt fieldAddrs (IndexOfString (names info) c) of
        Panic m \<Rightarrow> Panic m
      | Return s \<Rightarrow>
          (case unwrapNullable s (elem idx) of
             Panic m \<Rightarrow> Panic m
           | Return x \<Rightarrow> nullableLoop info fieldAddrs cs (elem(idx := x))))"

text \<open>
  What \<open>Select\<close> and \<open>SelectOne\<close> both do with a scanned row, each with its own copy of
  these statements.
\<close>

definition decodeRow ::
  "codec \<Rightarrow> columnInfo \<Rightarrow> struct \<Rightarrow> slot list \<Rightarrow> (struct \<times> error option) outcome" where
  "decodeRow js info elem scanned =
     (case jsonLoop js info scanned (jsonNames info) (storeFields elem (indexes info) scanned) of
        Panic m \<Rightarrow> Panic m
      | Return (elem', Some err) \<Rightarrow> Return (elem', Some err)
      | Return (elem', None) \<Rightarrow>
          (case nullableLoop info scanned (nullableNames info) elem' of
             Panic m \<Rightarrow> Panic m
           | Return elem'' \<Rightarrow> Return (elem'', None)))"

definition selectQueryText :: "Table \<Rightarrow> columnInfo \<Rightarrow> string \<Rightarrow> string" where
  "selectQueryText t info wh =
     ''SELECT '' @ Join (names info) '', '' @ '' FROM '' @ name t
       @ (if length wh > 0 then '' WHERE '' @ wh else [])"

section \<open>SelectOne\<close>

text \<open>
  \<open>record\<close> is the struct the caller's pointer refers to; the third component of the
  result is that struct afterwards.
\<close>

definition SelectOne ::
  "codec \<Rightarrow> Table \<Rightarrow> columnInfo \<Rightarrow> struct \<Rightarrow> string \<Rightarrow> param list \<Rightarrow>
     error option outcome \<times> stmt list \<times> struct" where
  "SelectOne js t info record wh args =
     (let ev = DeepNew record;
          query = selectQueryText t info wh
      in case bindFields info ev 0 (indexes info) of
           Panic m \<Rightarrow> (Panic m, [], record)
         | Return fieldAddrs \<Rightarrow>
             (case QueryRow (exe t) query args fieldAddrs of
                Inl err \<Rightarrow> (Return (Some err), [(query, args)], record)
              | Inr scanned \<Rightarrow>
                  (case decodeRow js info ev scanned of
                     Panic m \<Rightarrow> (Panic m, [(query, args)], record)
                   | Return (ev', Some err) \<Rightarrow> (Return (Some err), [(query, args)], record)
                   | Return (ev', None) \<Rightarrow> (Return None, [(query, args)], ev'))))"

section \<open>Select\<close>

text \<open>\<open>reflect.Append\<close>: a nil slice becomes a slice of one element.\<close>

fun Append :: "struct list option \<Rightarrow> struct \<Rightarrow> struct list option" where
  "Append None x = Some [x]"
| "Append (Some xs) x = Some (xs @ [x])"

text \<open>The elements of a slice; a nil slice has none.\<close>

fun elems :: "struct list option \<Rightarrow> struct list" where
  "elems None = []"
| "elems (Some xs) = xs"

text \<open>
  The body of the loop \<open>for rows.Next()\<close>: allocate a fresh element, bind its
  destinations, scan the row and decode it.
\<close>

definition scanRow ::
  "codec \<Rightarrow> columnInfo \<Rightarrow> struct \<Rightarrow> row \<Rightarrow> (struct \<times> error option) outcome" where
  "scanRow js info proto r =
     (let elem = DeepNew proto in
      case bindFields info elem 0 (indexes info) of
        Panic m \<Rightarrow> Panic m
      | Return fieldAddrs \<Rightarrow>
          (case r fieldAddrs of
             Inl err \<Rightarrow> Return (elem, Some err)
           | Inr scanned \<Rightarrow> decodeRow js info elem scanned))"

text \<open>The loop itself; it returns at the first row that fails.\<close>

fun selectLoop ::
  "codec \<Rightarrow> columnInfo \<Rightarrow> struct \<Rightarrow> row list \<Rightarrow> struct list option \<Rightarrow>
     (struct list option \<times> error option) outcome" where
  "selectLoop js info proto [] sliceValue = Return (sliceValue, None)"
| "selectLoop js info proto (r # rs) sliceValue =
     (case scanRow js info proto r of
        Panic m \<Rightarrow> Panic m
      | Return (elem, Some err) \<Rightarrow> Return (sliceValue, Some err)
      | Return (elem, None) \<Rightarrow> selectLoop js info proto rs (Append sliceValue elem))"

text \<open>
  \<open>records\<close> is the pointer the caller passes: \<open>None\<close> for a nil pointer, else the slice
  it points to, itself \<open>None\<close> when nil. \<open>proto\<close> stands for the element type. A value
  made by \<open>reflect.ValueOf\<close> is never settable, so the test \<open>v.IsNil() && !v.CanSet()\<close>
  holds exactly for a nil pointer, and the later \<open>if v.IsNil()\<close> is never taken. An element
  is modelled by its struct whether the slice holds structs or pointers to them.
\<close>

definition Select ::
  "codec \<Rightarrow> Table \<Rightarrow> columnInfo \<Rightarrow> struct \<Rightarrow> struct list option option \<Rightarrow> string \<Rightarrow>
     param list \<Rightarrow> error option outcome \<times> stmt list \<times> struct list option option" where
  "Select js t info proto records wh args =
     (case records of
        None \<Rightarrow> (Panic ''cannot be set value'', [], records)
      | Some sliceValue \<Rightarrow>
          (let query = selectQueryText t info wh in
           case Query (exe t) query args of
             (rows, Some err) \<Rightarrow> (Return (Some err), [(query, args)], records)
           | (None, None) \<Rightarrow>
               (Panic ''runtime error: invalid memory address or nil pointer dereference'',
                [(query, args)], records)
           | (Some rs, None) \<Rightarrow>
               (case selectLoop js info proto rs sliceValue of
                  Panic m \<Rightarrow> (Panic m, [(query, args)], records)
                | Return (sliceValue', Some err) \<Rightarrow> (Return (Some err), [(query, args)], records)
                | Return (sliceValue', None) \<Rightarrow>
                    (Return None, [(query, args)], Some sliceValue'))))"

section \<open>Delete\<close>

definition Delete :: "Table \<Rightarrow> string \<Rightarrow> param list \<Rightarrow> error option outcome \<times> stmt list" where
  "Delete t wh args =
     (if length wh = 0 then (Panic ''where is empty'', [])
      else
        (let query = ''DELETE FROM '' @ name t @ '' WHERE '' @ wh;
             (result, err) = Exec (exe t) query args
         in (Return err, [(query, args)])))"

section \<open>The JSON value adapter\<close>

text \<open>
  What the key-value store hands to the database as a statement argument. \<open>AJSON v\<close> is a
  \<open>jsonHolder\<close> around \<open>v\<close>, which the driver serializes through \<open>Value\<close> when the
  statement runs.
\<close>

datatype kvarg = AString string | ABytes bytes | AJSON val | ANull | ATime int

text \<open>
  \<open>JSON(v)\<close>: nil for a nil interface (\<open>None\<close>) and for a nil slice, else a holder.
\<close>

fun JSON :: "val option \<Rightarrow> kvarg" where
  "JSON None = ANull"
| "JSON (Some (VSlice None)) = ANull"
| "JSON (Some v) = AJSON v"

section \<open>The key-value store\<close>

text \<open>
  The database behind the store is a parameter: a state of any type and the behaviour of
  \<open>Exec\<close> on it, which returns the state afterwards and the error, if any. \<open>clock\<close> is
  the time the store's clock reports. The lines written by the logger are collected in a
  list, each with the key, the prefix of the message and the error. The mutex is left out.
\<close>

type_synonym 'db dbExec = "'db \<Rightarrow> string \<Rightarrow> kvarg list \<Rightarrow> 'db \<times> error option"

type_synonym logLine = "string \<times> string \<times> error"

record 'db KVStore =
  clock :: int
  db :: 'db

text \<open>\<open>fmt.Sprint\<close> of an \<open>int64\<close>: its decimal digits.\<close>

function natDigits :: "nat \<Rightarrow> string" where
  "natDigits n =
     (if n < 10 then [''0123456789'' ! n]
      else natDigits (n div 10) @ [''0123456789'' ! (n mod 10)])"
  by pat_completeness auto
termination
  by (relation "measure id") auto

definition Sprint :: "int \<Rightarrow> string" where
  "Sprint i = (if i < 0 then CHR ''-'' # natDigits (nat (- i)) else natDigits (nat i))"

text \<open>
  The statements shared by the save methods: run the REPLACE under the lock and log the
  error if there is one. The methods have no result; the model returns the store and the
  log afterwards.
\<close>

definition replaceKV ::
  "'db dbExec \<Rightarrow> 'db KVStore \<Rightarrow> logLine list \<Rightarrow> string \<Rightarrow> kvarg \<Rightarrow> 'db KVStore \<times> logLine list" where
  "replaceKV ex r lg key v =
     (let (db', err) = ex (db r) ''REPLACE INTO kv(k,v,updated_at) VALUES(?1,?2,?3)''
                          [AString key, v, ATime (clock r)]
      in (r\<lparr>db := db'\<rparr>, (case err of None \<Rightarrow> lg | Some e \<Rightarrow> lg @ [(key, [], e)])))"

definition SaveInt64 ::
  "'db dbExec \<Rightarrow> 'db KVStore \<Rightarrow> logLine list \<Rightarrow> string \<Rightarrow> int \<Rightarrow> 'db KVStore \<times> logLine list" where
  "SaveInt64 ex r lg key n = replaceKV ex r lg key (AString (Sprint n))"

definition SaveData ::
  "'db dbExec \<Rightarrow> 'db KVStore \<Rightarrow> logLine list \<Rightarrow> string \<Rightarrow> bytes \<Rightarrow> 'db KVStore \<times> logLine list" where
  "SaveData ex r lg key data = replaceKV ex r lg key (ABytes data)"

definition SaveString ::
  "'db dbExec \<Rightarrow> 'db KVStore \<Rightarrow> logLine list \<Rightarrow> string \<Rightarrow> string \<Rightarrow> 'db KVStore \<times> logLine list" where
  "SaveString ex r lg key s = SaveData ex r lg key s"

text \<open>\<open>proto.Marshal\<close> is a parameter.\<close>

definition SavePB ::
  "('m \<Rightarrow> error + bytes) \<Rightarrow> 'db dbExec \<Rightarrow> 'db KVStore \<Rightarrow> logLine list \<Rightarrow> string \<Rightarrow> 'm \<Rightarrow>
     'db KVStore \<times> logLine list" where
  "SavePB marshal ex r lg key msg =
     (case marshal msg of
        Inl err \<Rightarrow> (r, lg @ [(key, ''Marshal: '', err)])
      | Inr data \<Rightarrow> replaceKV ex r lg key (ABytes data))"

definition SaveJSON ::
  "'db dbExec \<Rightarrow> 'db KVStore \<Rightarrow> logLine list \<Rightarrow> string \<Rightarrow> val option \<Rightarrow>
     'db KVStore \<times> logLine list" where
  "SaveJSON ex r lg key obj = replaceKV ex r lg key (JSON obj)"

section \<open>Sample collaborators\<close>

text \<open>A small serializer and an executor that accepts every statement, for concrete runs.\<close>

fun sampleMarshal :: "val \<Rightarrow> error + bytes" where
  "sampleMarshal (VSlice None) = Inr ''null''"
| "sampleMarshal (VSlice (Some [])) = Inr ''[]''"
| "sampleMarshal (VStruct []) = Inr ''{}''"
| "sampleMarshal (VString s) = Inr (CHR 0x22 # s @ [CHR 0x22])"
| "sampleMarshal v = Inl (Err ''json: unsupported value'')"

definition sampleUnmarshal :: "bytes \<Rightarrow> val \<Rightarrow> error + val" where
  "sampleUnmarshal data v =
     (if data = ''[]'' then Inr (VSlice (Some []))
      else if data = ''null'' then Inr (VSlice None)
      else Inl (Err ''json: cannot unmarshal''))"

definition sampleCodec :: codec where
  "sampleCodec = \<lparr>Marshal = sampleMarshal, Unmarshal = sampleUnmarshal\<rparr>"

definition okExecutor :: executor where
  "okExecutor =
     \<lparr>Exec = (\<lambda>q args. (Some (ExecResult (Inr 7)), None)),
      Query = (\<lambda>q args. (Some [], None)),
      QueryRow = (\<lambda>q args slots. Inl ErrNoRows)\<rparr>"

definition failingExecutor :: executor where
  "failingExecutor =
     \<lparr>Exec = (\<lambda>q args. (None, Some (Err ''exec failed''))),
      Query = (\<lambda>q args. (None, Some (Err ''query failed''))),
      QueryRow = (\<lambda>q args slots. Inl (Err ''query failed''))\<rparr>"

text \<open>
  A record type with columns \<open>id\<close> (auto-increment primary key), \<open>name\<close> (string) and
  \<open>tags\<close> (JSON-encoded, nullable), and two of its records.
\<close>

definition userInfo :: columnInfo where
  "userInfo =
     \<lparr>indexes = [[0], [1], [2]],
      names = [''id'', ''name'', ''tags''],
      nameToIndex = [''id'' \<mapsto> [0], ''name'' \<mapsto> [1], ''tags'' \<mapsto> [2]],
      aiName = ''id'',
      notAINames = [''name'', ''tags''],
      pkNames = [''id''],
      notPKNames = [''name'', ''tags''],
      jsonNames = [''tags''],
      nullableNames = [''tags'']\<rparr>"

definition newUser :: struct where
  "newUser = (\<lambda>p. VStruct [])([0] := VInt KInt64 0, [1] := VString ''a'', [2] := VSlice (Some []))"

definition oldUser :: struct where
  "oldUser = (\<lambda>p. VStruct [])([0] := VInt KInt64 5, [1] := VString ''b'', [2] := VSlice None)"

definition usersOn :: "string \<Rightarrow> executor \<Rightarrow> Table" where
  "usersOn driver e = \<lparr>exe = e, driverName = driver, name = ''users''\<rparr>"

text \<open>
  A record type with columns \<open>id\<close> (auto-increment primary key), \<open>title\<close> (string),
  \<open>score\<close> (\<open>int32\<close>, nullable) and \<open>meta\<close> (JSON-encoded), a record of it, and an
  executor that finds one row whose \<open>score\<close> is NULL.
\<close>

definition noteInfo :: columnInfo where
  "noteInfo =
     \<lparr>indexes = [[0], [1], [2], [3]],
      names = [''id'', ''title'', ''score'', ''meta''],
      nameToIndex = [''id'' \<mapsto> [0], ''title'' \<mapsto> [1], ''score'' \<mapsto> [2], ''meta'' \<mapsto> [3]],
      aiName = ''id'',
      notAINames = [''title'', ''score'', ''meta''],
      pkNames = [''id''],
      notPKNames = [''title'', ''score'', ''meta''],
      jsonNames = [''meta''],
      nullableNames = [''score'']\<rparr>"

definition draftNote :: struct where
  "draftNote =
     (\<lambda>p. VStruct [])([0] := VInt KInt64 0, [1] := VString ''draft'', [2] := VInt KInt32 0,
        [3] := VSlice None)"

definition storedRow :: row where
  "storedRow =
     (\<lambda>slots. Inr [SField (VInt KInt64 3), SField (VString ''t''), SNullInt64 False 0,
                   SBytes ''[]''])"

definition storedNote :: struct where
  "storedNote =
     (\<lambda>p. VStruct [])([0] := VInt KInt64 3, [1] := VString ''t'', [2] := VInt KInt32 0,
        [3] := VSlice (Some []))"

definition rowExecutor :: executor where
  "rowExecutor =
     \<lparr>Exec = (\<lambda>q args. (Some (ExecResult (Inr 7)), None)),
      Query = (\<lambda>q args. (Some [storedRow, storedRow], None)),
      QueryRow = (\<lambda>q args. storedRow)\<rparr>"

definition notesOn :: "executor \<Rightarrow> Table" where
  "notesOn e = \<lparr>exe = e, driverName = ''sqlite3'', name = ''notes''\<rparr>"

text \<open>
  A database that keeps the value stored under each key, and one that is closed: every
  statement fails and changes nothing.
\<close>

definition openExec :: "(string \<rightharpoonup> kvarg) dbExec" where
  "openExec d q args =
     (case args of
        [AString k, v, ATime ts] \<Rightarrow> (d(k \<mapsto> v), None)
      | _ \<Rightarrow> (d, Some (Err ''bad arguments'')))"

definition closedExec :: "(string \<rightharpoonup> kvarg) dbExec" where
  "closedExec d q args = (d, Some (Err ''sql: database is closed''))"

definition sampleStore :: "(string \<rightharpoonup> kvarg) KVStore" where
  "sampleStore = \<lparr>clock = 1000, db = [''n'' \<mapsto> AString ''41'']\<rparr>"

definition failingMarshal :: "val \<Rightarrow> error + bytes" where
  "failingMarshal m = Inl (Err ''proto: marshal failed'')"

text \<open>
  An executor whose every \<open>Exec\<close> succeeds with the given last-insert identifier, and two
  records of the first sample type whose \<open>id\<close> field is a \<open>uint64\<close> and an \<open>int8\<close>.
\<close>

definition idExecutor :: "int \<Rightarrow> executor" where
  "idExecutor n =
     \<lparr>Exec = (\<lambda>q args. (Some (ExecResult (Inr n)), None)),
      Query = (\<lambda>q args. (Some [], None)),
      QueryRow = (\<lambda>q args slots. Inl ErrNoRows)\<rparr>"

definition uintUser :: struct where
  "uintUser = (\<lambda>p. VStruct [])([0] := VUint KUint64 0, [1] := VString ''a'', [2] := VSlice (Some []))"

definition smallUser :: struct where
  "smallUser = (\<lambda>p. VStruct [])([0] := VInt KInt8 0, [1] := VString ''a'', [2] := VSlice (Some []))"

section \<open>Facts about the helpers\<close>

lemma IndexOfString_ge0_iff: "IndexOfString xs s \<ge> 0 \<longleftrightarrow> s \<in> set xs"
  by (induction xs) (auto simp: Let_def)

lemma IndexOfString_lt0_iff: "IndexOfString xs s < 0 \<longleftrightarrow> s \<notin> set xs"
  using IndexOfString_ge0_iff [of xs s] by linarith

lemma IndexOfString_nth:
  "distinct xs \<Longrightarrow> j < length xs \<Longrightarrow> IndexOfString xs (xs ! j) = int j"
proof (induction xs arbitrary: j)
  case Nil
  then show ?case by simp
next
  case (Cons x xs)
  show ?case
  proof (cases j)
    case 0
    then show ?thesis by simp
  next
    case (Suc k)
    with Cons.prems have k: "k < length xs" and d: "distinct xs" and nx: "xs ! k \<noteq> x"
      by auto
    from Cons.IH [OF d k] Suc nx show ?thesis
      by (auto simp: Let_def)
  qed
qed

lemma collectValues_ok:
  "collectValues js v info cols acc = Return (values, None) \<Longrightarrow>
     \<exists>vs. values = acc @ vs
        \<and> list_all2 (\<lambda>c p. getFieldValueByName js v info c = Return (p, None)) cols vs"
proof (induction cols arbitrary: acc)
  case Nil
  then show ?case by simp
next
  case (Cons c cs)
  from Cons.prems obtain fv where
    g: "getFieldValueByName js v info c = Return (fv, None)"
    and r: "collectValues js v info cs (acc @ [fv]) = Return (values, None)"
    by (auto split: outcome.splits prod.splits option.splits)
  from Cons.IH [OF r] obtain vs where
    "values = (acc @ [fv]) @ vs"
    "list_all2 (\<lambda>c p. getFieldValueByName js v info c = Return (p, None)) cs vs"
    by blast
  with g show ?case by (intro exI [of _ "fv # vs"]) simp
qed

lemma Repeat_Join: "Repeat ''?, '' (Suc n) = Join (replicate (Suc n) ''?'') '', '' @ '', ''"
  by (induction n) auto

lemma Truncate_two:
  "Truncate (xs @ [a, b]) (int (length (xs @ [a, b])) - 2) = Return xs"
  by (simp add: Truncate_def)

lemma insertQueryText_nonempty:
  assumes "cols \<noteq> []"
  shows "insertQueryText tn cols =
     Return (''INSERT INTO '' @ tn @ ''('' @ Join cols '', '' @ '') VALUES (''
               @ Join (replicate (length cols) ''?'') '', '' @ '')'')"
proof -
  from assms obtain n where n: "length cols = Suc n" by (cases cols) auto
  define pre where "pre = ''INSERT INTO '' @ tn @ ''('' @ Join cols '', '' @ '') VALUES (''
               @ Join (replicate (length cols) ''?'') '', ''"
  have buf: "''INSERT INTO '' @ tn @ ''('' @ Join cols '', '' @ '') VALUES (''
                  @ Repeat ''?, '' (length cols) = pre @ [CHR '','', CHR '' '']"
    unfolding pre_def n Repeat_Join by simp
  show ?thesis
    unfolding insertQueryText_def Let_def buf Truncate_two
    by (simp add: pre_def)
qed

lemma Truncate_append:
  assumes "2 \<le> length tail"
  shows "Truncate (p @ tail) (int (length (p @ tail)) - 2)
           = Return (p @ take (length tail - 2) tail)"
proof -
  have n: "nat (int (length (p @ tail)) - 2) = length p + (length tail - 2)"
    using assms by simp
  have "take (length p + (length tail - 2)) (p @ tail) = p @ take (length tail - 2) tail"
    by simp
  with n assms show ?thesis
    by (simp add: Truncate_def del: take_append)
qed

lemma insertQueryText_prefix:
  "\<exists>rest. insertQueryText tn cols = Return (''INSERT INTO '' @ rest)"
proof -
  define tail where
    "tail = tn @ ''('' @ Join cols '', '' @ '') VALUES ('' @ Repeat ''?, '' (length cols)"
  have len: "2 \<le> length tail"
    by (simp add: tail_def)
  have buf: "''INSERT INTO '' @ tn @ ''('' @ Join cols '', '' @ '') VALUES (''
                  @ Repeat ''?, '' (length cols) = ''INSERT INTO '' @ tail"
    by (simp add: tail_def)
  have "insertQueryText tn cols = Return (''INSERT INTO '' @ take (length tail - 2) tail @ '')'')"
    unfolding insertQueryText_def Let_def buf Truncate_append [OF len] by simp
  then show ?thesis by blast
qed

lemma prepareInsertQuery_text:
  assumes "prepareInsertQuery js t info v = Return (query, values, None)"
  shows "\<exists>rest. query = ''INSERT INTO '' @ rest"
proof -
  from assms obtain cols where "insertQueryText (name t) cols = Return query"
    by (auto simp: prepareInsertQuery_def Let_def split: outcome.splits prod.splits option.splits)
  with insertQueryText_prefix [of "name t" cols] show ?thesis
    by auto
qed

lemma assignments_Suc:
  "assignments sep (Suc i) cs = concat (map (\<lambda>c. sep @ c @ '' = ?'') cs)"
  by (induction cs arbitrary: i) auto

lemma Join_map_concat:
  "Join (x # xs) sep = x @ concat (map (\<lambda>c. sep @ c) xs)"
  by (induction xs arbitrary: x) auto

lemma assignments_Join:
  "assignments sep 0 cs = Join (map (\<lambda>c. c @ '' = ?'') cs) sep"
  by (cases cs) (simp_all add: assignments_Suc Join_map_concat comp_def)

lemma replaceFirst_insert:
  "replaceFirst (''INSERT INTO '' @ rest) ''INSERT INTO'' ''INSERT OR REPLACE INTO''
     = ''INSERT OR REPLACE INTO '' @ rest"
  by simp

lemma wrapInt_in_range:
  assumes "0 < n" and "- (2 ^ (n - 1)) \<le> x" and "x < 2 ^ (n - 1)"
  shows "wrapInt n x = x"
proof -
  from assms(1) obtain m where m: "n = Suc m" by (cases n) auto
  have "0 \<le> x + 2 ^ m" and "x + 2 ^ m < 2 ^ Suc m"
    using assms(2,3) by (simp_all add: m)
  then have "(x + 2 ^ m) mod 2 ^ Suc m = x + 2 ^ m"
    by (rule mod_pos_pos_trivial)
  then show ?thesis by (simp add: wrapInt_def m)
qed

lemma intBits_pos: "0 < intBits k"
  by (cases k) simp_all

lemma aiIsZero_VInt:
  "aiName info \<noteq> [] \<Longrightarrow> v (indexOf info (aiName info)) = VInt k x \<Longrightarrow>
     aiIsZero v info = Return (x = 0)"
  by (simp add: aiIsZero_def)

lemma getFieldValueByName_nonzero_int:
  "v (indexOf info c) = VInt k x \<Longrightarrow> x \<noteq> 0 \<Longrightarrow> c \<notin> set (jsonNames info) \<Longrightarrow>
     getFieldValueByName js v info c = Return (PVal (VInt k x), None)"
  by (simp add: getFieldValueByName_def IndexOfString_ge0_iff isZeroValue_def Let_def)

lemma Insert_after_prepare:
  assumes "prepareInsertQuery js t info v = Return (query, values, None)"
  shows "fst (snd (Insert js t info v)) = [(query, values)]"
  using assms
  by (simp add: Insert_def Let_def split: prod.splits option.splits)

lemma Insert_exec_failure:
  assumes "prepareInsertQuery js t info v = Return (query, values, None)"
    and "snd (Exec (exe t) query values) = Some err"
  shows "Insert js t info v = (Return (Some err), [(query, values)], v)"
  using assms
  by (auto simp: Insert_def split: prod.splits option.splits)

lemma isZeroValue_zero: "comparable z \<Longrightarrow> z = zeroOf z \<Longrightarrow> isZeroValue z = Return True"
  by (simp add: isZeroValue_def)

subsection \<open>Decoding leaves other fields alone\<close>

lemma storeFields_other:
  "(\<And>j x. j < length idxs \<Longrightarrow> j < length ss \<Longrightarrow> idxs ! j = p \<Longrightarrow> ss ! j \<noteq> SField x) \<Longrightarrow>
     storeFields e idxs ss p = e p"
proof (induction e idxs ss rule: storeFields.induct)
  case (1 elem idx idxs x ss)
  from "1.prems" [of 0 x] have ne: "idx \<noteq> p" by auto
  have "storeFields (elem(idx := x)) idxs ss p = (elem(idx := x)) p"
  proof (rule "1.IH")
    fix j y assume "j < length idxs" "j < length ss" "idxs ! j = p"
    with "1.prems" [of "Suc j" y] show "ss ! j \<noteq> SField y" by simp
  qed
  with ne show ?case by simp
qed (force)+

lemma jsonLoop_other:
  "jsonLoop js info fa cs e = Return (e', None) \<Longrightarrow> (\<And>c. c \<in> set cs \<Longrightarrow> indexOf info c \<noteq> p) \<Longrightarrow>
     e' p = e p"
proof (induction cs arbitrary: e)
  case Nil
  then show ?case by simp
next
  case (Cons c cs)
  from Cons.prems(1) obtain data x where
    u: "Unmarshal js data (e (indexOf info c)) = Inr x"
    and r: "jsonLoop js info fa cs (e(indexOf info c := x)) = Return (e', None)"
    by (auto simp: Let_def split: outcome.splits slot.splits sum.splits)
  have "e' p = (e(indexOf info c := x)) p"
    by (rule Cons.IH [OF r]) (use Cons.prems(2) in auto)
  with Cons.prems(2) [of c] show ?case by simp
qed

lemma unwrapNullable_notPresent: "notPresent s \<Longrightarrow> unwrapNullable s fv = Return fv"
  by (cases s) simp_all

lemma nullableLoop_other:
  "nullableLoop info fa cs e = Return e' \<Longrightarrow>
   (\<And>c. c \<in> set cs \<Longrightarrow> indexOf info c = p \<Longrightarrow>
      \<exists>s. slotAt fa (IndexOfString (names info) c) = Return s \<and> notPresent s) \<Longrightarrow>
     e' p = e p"
proof (induction cs arbitrary: e)
  case Nil
  then show ?case by simp
next
  case (Cons c cs)
  from Cons.prems(1) obtain s x where
    sl: "slotAt fa (IndexOfString (names info) c) = Return s"
    and u: "unwrapNullable s (e (indexOf info c)) = Return x"
    and r: "nullableLoop info fa cs (e(indexOf info c := x)) = Return e'"
    by (auto simp: Let_def split: outcome.splits)
  have step: "(e(indexOf info c := x)) p = e p"
  proof (cases "indexOf info c = p")
    case True
    with Cons.prems(2) [of c] sl have "notPresent s" by auto
    with u have "x = e (indexOf info c)" by (simp add: unwrapNullable_notPresent)
    then show ?thesis by simp
  next
    case False
    then show ?thesis by simp
  qed
  have "e' p = (e(indexOf info c := x)) p"
    by (rule Cons.IH [OF r]) (use Cons.prems(2) in auto)
  with step show ?case by simp
qed

subsection \<open>The loop of Select\<close>

lemma foldl_Append:
  "foldl Append sl news = (if sl = None \<and> news = [] then None else Some (elems sl @ news))"
proof (induction news arbitrary: sl)
  case Nil
  then show ?case by (cases sl) simp_all
next
  case (Cons e es)
  then show ?case by (cases sl) simp_all
qed

lemma selectLoop_all:
  "list_all2 (\<lambda>r e. scanRow js info proto r = Return (e, None)) rs news \<Longrightarrow>
     selectLoop js info proto rs sl = Return (foldl Append sl news, None)"
  by (induction rs news arbitrary: sl rule: list_all2_induct) simp_all

subsection \<open>The key-value store\<close>

lemma replaceKV_failure:
  "ex (db r) ''REPLACE INTO kv(k,v,updated_at) VALUES(?1,?2,?3)'' [AString key, v, ATime (clock r)]
     = (db r, Some err) \<Longrightarrow>
   replaceKV ex r lg key v = (r, lg @ [(key, [], err)])"
  by (simp add: replaceKV_def)

subsection \<open>Evaluation on the sample record types\<close>

lemmas sample_defs =
  userInfo_def newUser_def oldUser_def sampleCodec_def usersOn_def okExecutor_def
  failingExecutor_def

lemmas eval_defs =
  indexOf_def getFieldValueByName_def isEmpty_def isZeroValue_def insertQueryText_def
  Truncate_def Let_def

lemma prepare_newUser:
  "prepareInsertQuery sampleCodec (usersOn d e) userInfo newUser =
     Return (''INSERT INTO users(name, tags) VALUES (?, ?)'', [PVal (VString ''a''), PNull], None)"
  by (simp add: prepareInsertQuery_def aiIsZero_def sample_defs eval_defs)

lemma DeepNew_draftNote:
  "DeepNew draftNote =
     (\<lambda>p. VStruct [])([0] := VInt KInt64 0, [1] := VString [], [2] := VInt KInt32 0,
        [3] := VSlice None)"
  by (auto simp: DeepNew_def draftNote_def fun_eq_iff)

lemma bind_draftNote:
  "bindFields noteInfo (DeepNew draftNote) 0 (indexes noteInfo) =
     Return [SField (VInt KInt64 0), SField (VString []), SNullInt64 False 0, SBytes []]"
  by (simp add: DeepNew_draftNote noteInfo_def bindField_def)

lemma decode_stored:
  "decodeRow sampleCodec noteInfo (DeepNew draftNote)
     [SField (VInt KInt64 3), SField (VString ''t''), SNullInt64 False 0, SBytes ''[]'']
   = Return (storedNote, None)"
  by (auto simp: DeepNew_draftNote decodeRow_def noteInfo_def storedNote_def sampleCodec_def
        sampleUnmarshal_def slotAt_def indexOf_def Let_def fun_eq_iff)

lemma scanRow_stored:
  "scanRow sampleCodec noteInfo draftNote storedRow = Return (storedNote, None)"
  by (simp add: scanRow_def bind_draftNote Let_def) (simp add: storedRow_def decode_stored)

lemma selectQueryText_notes:
  "selectQueryText (notesOn e) noteInfo [] = ''SELECT id, title, score, meta FROM notes''"
  "selectQueryText (notesOn e) noteInfo ''id = ?'' =
     ''SELECT id, title, score, meta FROM notes WHERE id = ?''"
  by (simp_all add: selectQueryText_def notesOn_def noteInfo_def)

section \<open>Claims\<close>

text \<open>
  C1, as the code has it. Let the auto-increment column be held in a field of a signed
  integer kind with value \<open>x\<close>, and let encoding of the chosen columns succeed. Insert
  then sends exactly one statement, whatever the executor answers: over the columns other
  than the auto-increment column when \<open>x\<close> is zero, over all columns otherwise, each
  parameter being the encoded value of its column. When \<open>x\<close> is zero and the executor
  succeeds with the identifier \<open>newId\<close>, the field of the caller's record receives
  \<open>newId\<close> converted to the field's integer type, which is \<open>newId\<close> itself whenever that
  type can hold it; when the executor fails, its error is returned and the record is as
  it was. When \<open>x\<close> is not zero, the parameter of the auto-increment column is the field's
  current value and the record is as it was, whatever the executor answers.
\<close>

theorem C1_insert_auto_increment:
  assumes ai: "aiName info \<noteq> []"
    and fld: "v (indexOf info (aiName info)) = VInt k x"
    and notAI: "notAINames info = filter (\<lambda>c. c \<noteq> aiName info) (names info)"
    and enc: "collectValues js v info (if x = 0 then notAINames info else names info) []
                = Return (values, None)"
    and qtext: "insertQueryText (name t) (if x = 0 then notAINames info else names info)
                = Return query"
  shows "fst (snd (Insert js t info v)) = [(query, values)]
       \<and> insertQueryText (name t)
            (if x = 0 then filter (\<lambda>c. c \<noteq> aiName info) (names info) else names info)
           = Return query
       \<and> list_all2 (\<lambda>c p. getFieldValueByName js v info c = Return (p, None))
            (if x = 0 then filter (\<lambda>c. c \<noteq> aiName info) (names info) else names info) values
       \<and> (x = 0 \<and> Exec (exe t) query values = (Some r, None) \<and> LastInsertId r = Inr newId \<longrightarrow>
           Insert js t info v =
             (Return None, [(query, values)],
              v(indexOf info (aiName info) := VInt k (wrapInt (intBits k) newId)))
           \<and> (- (2 ^ (intBits k - 1)) \<le> newId \<and> newId < 2 ^ (intBits k - 1) \<longrightarrow>
                wrapInt (intBits k) newId = newId))
       \<and> (x = 0 \<and> snd (Exec (exe t) query values) = Some err \<longrightarrow>
           Insert js t info v = (Return (Some err), [(query, values)], v))
       \<and> (x \<noteq> 0 \<longrightarrow>
           Insert js t info v = (Return (snd (Exec (exe t) query values)), [(query, values)], v)
           \<and> (aiName info \<notin> set (jsonNames info) \<longrightarrow>
                getFieldValueByName js v info (aiName info) = Return (PVal (VInt k x), None)))"
proof -
  have z: "aiIsZero v info = Return (x = 0)"
    using aiIsZero_VInt [of info v k x] ai fld by simp
  have prep: "prepareInsertQuery js t info v = Return (query, values, None)"
    using enc qtext by (simp add: prepareInsertQuery_def z)
  have sent: "fst (snd (Insert js t info v)) = [(query, values)]"
    using prep by (rule Insert_after_prepare)
  have text1: "insertQueryText (name t)
            (if x = 0 then filter (\<lambda>c. c \<noteq> aiName info) (names info) else names info)
           = Return query"
    using qtext unfolding notAI .
  have vals: "list_all2 (\<lambda>c p. getFieldValueByName js v info c = Return (p, None))
            (if x = 0 then filter (\<lambda>c. c \<noteq> aiName info) (names info) else names info) values"
    using collectValues_ok [OF enc] notAI by auto
  have wback: "Insert js t info v =
             (Return None, [(query, values)],
              v(indexOf info (aiName info) := VInt k (wrapInt (intBits k) newId)))
           \<and> (- (2 ^ (intBits k - 1)) \<le> newId \<and> newId < 2 ^ (intBits k - 1) \<longrightarrow>
                wrapInt (intBits k) newId = newId)"
    if h: "x = 0 \<and> Exec (exe t) query values = (Some r, None) \<and> LastInsertId r = Inr newId"
  proof -
    have wb: "writeBackId (Some r) info v None =
                (Return None, v(indexOf info (aiName info) := VInt k (wrapInt (intBits k) newId)))"
      using h by (simp add: writeBackId_def z fld)
    have "Insert js t info v =
             (Return None, [(query, values)],
              v(indexOf info (aiName info) := VInt k (wrapInt (intBits k) newId)))"
      using h by (simp add: Insert_def prep wb)
    moreover have "wrapInt (intBits k) newId = newId"
      if "- (2 ^ (intBits k - 1)) \<le> newId \<and> newId < 2 ^ (intBits k - 1)"
      using that by (intro wrapInt_in_range intBits_pos) simp_all
    ultimately show ?thesis by blast
  qed
  have exfail: "Insert js t info v = (Return (Some err), [(query, values)], v)"
    if "x = 0 \<and> snd (Exec (exe t) query values) = Some err"
    using that Insert_exec_failure [OF prep] by simp
  have nonzero: "Insert js t info v =
             (Return (snd (Exec (exe t) query values)), [(query, values)], v)
           \<and> (aiName info \<notin> set (jsonNames info) \<longrightarrow>
                getFieldValueByName js v info (aiName info) = Return (PVal (VInt k x), None))"
    if h: "x \<noteq> 0"
  proof -
    have wb: "writeBackId res info v None = (Return None, v)" for res
      using h by (simp add: writeBackId_def z)
    have "Insert js t info v = (Return (snd (Exec (exe t) query values)), [(query, values)], v)"
      by (cases "Exec (exe t) query values")
         (auto simp: Insert_def prep wb split: option.splits)
    moreover have "getFieldValueByName js v info (aiName info) = Return (PVal (VInt k x), None)"
      if "aiName info \<notin> set (jsonNames info)"
      using fld h that by (intro getFieldValueByName_nonzero_int)
    ultimately show ?thesis by blast
  qed
  from sent text1 vals wback exfail nonzero show ?thesis
    by blast
qed

theorem C1_insert_auto_increment_witness:
  "Insert sampleCodec (usersOn ''mysql'' okExecutor) userInfo newUser =
     (Return None,
      [(''INSERT INTO users(name, tags) VALUES (?, ?)'', [PVal (VString ''a''), PNull])],
      newUser([0] := VInt KInt64 7))
   \<and> Insert sampleCodec (usersOn ''mysql'' failingExecutor) userInfo newUser =
     (Return (Some (Err ''exec failed'')),
      [(''INSERT INTO users(name, tags) VALUES (?, ?)'', [PVal (VString ''a''), PNull])],
      newUser)
   \<and> Insert sampleCodec (usersOn ''mysql'' okExecutor) userInfo oldUser =
     (Return None,
      [(''INSERT INTO users(id, name, tags) VALUES (?, ?, ?)'',
        [PVal (VInt KInt64 5), PVal (VString ''b''), PNull])],
      oldUser)"
proof -
  let ?t = "usersOn ''mysql'' okExecutor"
  let ?tf = "usersOn ''mysql'' failingExecutor"
  let ?q0 = "''INSERT INTO users(name, tags) VALUES (?, ?)''"
  let ?q5 = "''INSERT INTO users(id, name, tags) VALUES (?, ?, ?)''"
  let ?v0 = "[PVal (VString ''a''), PNull]"
  let ?v5 = "[PVal (VInt KInt64 5), PVal (VString ''b''), PNull]"
  have ai: "aiName userInfo \<noteq> []"
    by (simp add: userInfo_def)
  have notAI: "notAINames userInfo = filter (\<lambda>c. c \<noteq> aiName userInfo) (names userInfo)"
    by (simp add: userInfo_def)
  have f0: "newUser (indexOf userInfo (aiName userInfo)) = VInt KInt64 0"
    by (simp add: sample_defs indexOf_def)
  have f5: "oldUser (indexOf userInfo (aiName userInfo)) = VInt KInt64 5"
    by (simp add: sample_defs indexOf_def)
  have e0: "collectValues sampleCodec newUser userInfo
              (if (0::int) = 0 then notAINames userInfo else names userInfo) []
            = Return (?v0, None)"
    by (simp add: sample_defs eval_defs)
  have e5: "collectValues sampleCodec oldUser userInfo
              (if (5::int) = 0 then notAINames userInfo else names userInfo) []
            = Return (?v5, None)"
    by (simp add: sample_defs eval_defs)
  have t0: "insertQueryText (name ?t)
              (if (0::int) = 0 then notAINames userInfo else names userInfo)
            = Return ?q0"
    and tf: "insertQueryText (name ?tf)
              (if (0::int) = 0 then notAINames userInfo else names userInfo)
            = Return ?q0"
    by (simp_all add: sample_defs eval_defs)
  have t5: "insertQueryText (name ?t) (if (5::int) = 0 then notAINames userInfo else names userInfo)
            = Return ?q5"
    by (simp add: sample_defs eval_defs)
  have x0: "Exec (exe ?t) q a = (Some (ExecResult (Inr 7)), None)" for q a
    by (simp add: sample_defs)
  have xf: "Exec (exe ?tf) q a = (None, Some (Err ''exec failed''))" for q a
    by (simp add: sample_defs)
  have i0: "indexOf userInfo (aiName userInfo) = [0]"
    by (simp add: userInfo_def indexOf_def)
  have w7: "wrapInt (intBits KInt64) 7 = 7"
    by (simp add: wrapInt_def)
  from C1_insert_auto_increment [OF ai f0 notAI e0 t0, where r = "ExecResult (Inr 7)" and newId = 7]
  have a: "Insert sampleCodec ?t userInfo newUser =
          (Return None, [(?q0, ?v0)], newUser([0] := VInt KInt64 7))"
    by (simp add: x0 i0 w7)
  from C1_insert_auto_increment [OF ai f0 notAI e0 tf, where err = "Err ''exec failed''"]
  have b: "Insert sampleCodec ?tf userInfo newUser =
          (Return (Some (Err ''exec failed'')), [(?q0, ?v0)], newUser)"
    by (simp add: xf)
  from C1_insert_auto_increment [OF ai f5 notAI e5 t5]
  have c: "Insert sampleCodec ?t userInfo oldUser = (Return None, [(?q5, ?v5)], oldUser)"
    by (simp add: x0)
  from a b c show ?thesis by simp
qed

text \<open>
  With an auto-increment field of an unsigned kind, Insert panics at \<open>Int\<close> and sends
  nothing; with an \<open>int8\<close> field and the identifier 200, it stores \<open>-56\<close> and reports
  success.
\<close>

theorem C1_unsigned_or_narrow_field:
  "Insert sampleCodec (usersOn ''mysql'' okExecutor) userInfo uintUser =
     (Panic ''reflect: call of reflect.Value.Int on non-int Value'', [], uintUser)
   \<and> Insert sampleCodec (usersOn ''mysql'' (idExecutor 200)) userInfo smallUser =
     (Return None,
      [(''INSERT INTO users(name, tags) VALUES (?, ?)'', [PVal (VString ''a''), PNull])],
      smallUser([0] := VInt KInt8 (- 56)))"
proof -
  have i0: "indexOf userInfo (aiName userInfo) = [0]"
    by (simp add: userInfo_def indexOf_def)
  have ai: "aiName userInfo \<noteq> []"
    by (simp add: userInfo_def)
  have u0: "uintUser [0] = VUint KUint64 0"
    by (simp add: uintUser_def)
  have zu: "aiIsZero uintUser userInfo
              = Panic ''reflect: call of reflect.Value.Int on non-int Value''"
    by (simp add: aiIsZero_def i0 ai u0)
  have a: "Insert sampleCodec (usersOn ''mysql'' okExecutor) userInfo uintUser =
     (Panic ''reflect: call of reflect.Value.Int on non-int Value'', [], uintUser)"
    by (simp add: Insert_def prepareInsertQuery_def zu)
  have s0: "smallUser [0] = VInt KInt8 0"
    by (simp add: smallUser_def)
  have zs: "aiIsZero smallUser userInfo = Return True"
    by (simp add: aiIsZero_def i0 ai s0)
  have cv: "collectValues sampleCodec smallUser userInfo (notAINames userInfo) []
              = Return ([PVal (VString ''a''), PNull], None)"
    by (simp add: userInfo_def smallUser_def sampleCodec_def eval_defs)
  have qt: "insertQueryText (name (usersOn ''mysql'' (idExecutor 200))) (notAINames userInfo)
              = Return ''INSERT INTO users(name, tags) VALUES (?, ?)''"
    by (simp add: userInfo_def usersOn_def eval_defs)
  have prep: "prepareInsertQuery sampleCodec (usersOn ''mysql'' (idExecutor 200)) userInfo smallUser
                = Return (''INSERT INTO users(name, tags) VALUES (?, ?)'',
                          [PVal (VString ''a''), PNull], None)"
    by (simp add: prepareInsertQuery_def zs cv qt)
  have ex: "Exec (exe (usersOn ''mysql'' (idExecutor 200))) q args
              = (Some (ExecResult (Inr 200)), None)" for q args
    by (simp add: usersOn_def idExecutor_def)
  have w: "wrapInt 8 200 = - 56"
    by (simp add: wrapInt_def)
  have wb: "writeBackId (Some (ExecResult (Inr 200))) userInfo smallUser None
              = (Return None, smallUser([0] := VInt KInt8 (- 56)))"
    by (simp add: writeBackId_def zs i0 s0 w)
  have b: "Insert sampleCodec (usersOn ''mysql'' (idExecutor 200)) userInfo smallUser =
     (Return None,
      [(''INSERT INTO users(name, tags) VALUES (?, ?)'', [PVal (VString ''a''), PNull])],
      smallUser([0] := VInt KInt8 (- 56)))"
    by (simp add: Insert_def prep ex wb)
  from a b show ?thesis by simp
qed

text \<open>
  C2. SelectOne touches the caller's record only on full success: whenever its outcome is
  an error or a panic, the record is as it was. When the row's Scan fails, that very error
  is returned (for a predicate that matches no row, \<open>database/sql\<close> reports
  \<open>sql.ErrNoRows\<close>, and this is what the caller gets). When scan and decoding succeed, the
  record becomes the value decoded into a fresh instance of its type.
\<close>

theorem C2_select_one_commits_on_success:
  "(fst (SelectOne js t info record wh args) \<noteq> Return None \<longrightarrow>
      snd (snd (SelectOne js t info record wh args)) = record)
   \<and> (bindFields info (DeepNew record) 0 (indexes info) = Return fieldAddrs
        \<and> QueryRow (exe t) (selectQueryText t info wh) args fieldAddrs = Inl err \<longrightarrow>
      SelectOne js t info record wh args =
        (Return (Some err), [(selectQueryText t info wh, args)], record))
   \<and> (bindFields info (DeepNew record) 0 (indexes info) = Return fieldAddrs
        \<and> QueryRow (exe t) (selectQueryText t info wh) args fieldAddrs = Inr scanned
        \<and> decodeRow js info (DeepNew record) scanned = Return (ev, None) \<longrightarrow>
      SelectOne js t info record wh args =
        (Return None, [(selectQueryText t info wh, args)], ev))"
  by (auto simp: SelectOne_def Let_def split: outcome.splits sum.splits prod.splits option.splits)

theorem C2_select_one_commits_on_success_witness:
  "SelectOne sampleCodec (notesOn okExecutor) noteInfo draftNote ''id = ?'' [PVal (VInt KInt64 9)] =
     (Return (Some ErrNoRows),
      [(''SELECT id, title, score, meta FROM notes WHERE id = ?'', [PVal (VInt KInt64 9)])],
      draftNote)
   \<and> SelectOne sampleCodec (notesOn rowExecutor) noteInfo draftNote ''id = ?''
        [PVal (VInt KInt64 3)] =
     (Return None,
      [(''SELECT id, title, score, meta FROM notes WHERE id = ?'', [PVal (VInt KInt64 3)])],
      storedNote)"
proof -
  let ?fa = "[SField (VInt KInt64 0), SField (VString []), SNullInt64 False 0, SBytes []]"
  let ?sc = "[SField (VInt KInt64 3), SField (VString ''t''), SNullInt64 False 0, SBytes ''[]'']"
  have q0: "QueryRow (exe (notesOn okExecutor)) q a ?fa = Inl ErrNoRows" for q a
    by (simp add: notesOn_def okExecutor_def)
  have q1: "QueryRow (exe (notesOn rowExecutor)) q a ?fa = Inr ?sc" for q a
    by (simp add: notesOn_def rowExecutor_def storedRow_def)
  from C2_select_one_commits_on_success
         [of sampleCodec "notesOn okExecutor" noteInfo draftNote "''id = ?''"
             "[PVal (VInt KInt64 9)]" ?fa ErrNoRows]
  have a: "SelectOne sampleCodec (notesOn okExecutor) noteInfo draftNote ''id = ?''
             [PVal (VInt KInt64 9)] =
     (Return (Some ErrNoRows),
      [(selectQueryText (notesOn okExecutor) noteInfo ''id = ?'', [PVal (VInt KInt64 9)])],
      draftNote)"
    by (simp only: bind_draftNote q0 simp_thms)
  from C2_select_one_commits_on_success
         [of sampleCodec "notesOn rowExecutor" noteInfo draftNote "''id = ?''"
             "[PVal (VInt KInt64 3)]" ?fa _ ?sc storedNote]
  have b: "SelectOne sampleCodec (notesOn rowExecutor) noteInfo draftNote ''id = ?''
             [PVal (VInt KInt64 3)] =
     (Return None,
      [(selectQueryText (notesOn rowExecutor) noteInfo ''id = ?'', [PVal (VInt KInt64 3)])],
      storedNote)"
    by (simp only: bind_draftNote q1 decode_stored simp_thms)
  from a b show ?thesis
    by (simp only: selectQueryText_notes simp_thms)
qed

text \<open>
  C3. Save dispatches on the driver name. For \<open>mysql\<close> it sends the Insert statement
  followed by \<open>ON DUPLICATE KEY UPDATE\<close> and an assignment for every persisted column,
  with the values of all columns appended to the parameters. For \<open>sqlite3\<close> it sends the
  Insert statement with its leading \<open>INSERT INTO\<close> replaced by \<open>INSERT OR REPLACE INTO\<close>.
  For any other driver name it panics, sends nothing and leaves the record alone.
\<close>

theorem C3_save_dispatch:
  "(driverName t = ''mysql''
      \<and> prepareInsertQuery js t info v = Return (query, values, None)
      \<and> collectValues js v info (names info) values = Return (values', None) \<longrightarrow>
      fst (snd (Save js t info v)) =
        [(query @ '' ON DUPLICATE KEY UPDATE ''
            @ Join (map (\<lambda>c. c @ '' = ?'') (names info)) '', '', values')])
   \<and> (driverName t = ''sqlite3''
      \<and> prepareInsertQuery js t info v = Return (query, values, None) \<longrightarrow>
      (\<exists>rest. query = ''INSERT INTO '' @ rest
         \<and> fst (snd (Save js t info v)) = [(''INSERT OR REPLACE INTO '' @ rest, values)]))
   \<and> (driverName t \<noteq> ''mysql'' \<and> driverName t \<noteq> ''sqlite3'' \<longrightarrow>
      Save js t info v =
        (Panic (''Save operation is not supported for driver: '' @ driverName t), [], v))"
proof (intro conjI impI)
  assume h: "driverName t = ''mysql''
      \<and> prepareInsertQuery js t info v = Return (query, values, None)
      \<and> collectValues js v info (names info) values = Return (values', None)"
  then show "fst (snd (Save js t info v)) =
        [(query @ '' ON DUPLICATE KEY UPDATE ''
            @ Join (map (\<lambda>c. c @ '' = ?'') (names info)) '', '', values')]"
    by (simp add: Save_def mysqlSave_def assignments_Join Let_def split: prod.splits)
next
  assume h: "driverName t = ''sqlite3''
      \<and> prepareInsertQuery js t info v = Return (query, values, None)"
  then obtain rest where rest: "query = ''INSERT INTO '' @ rest"
    using prepareInsertQuery_text by blast
  have "fst (snd (Save js t info v)) = [(''INSERT OR REPLACE INTO '' @ rest, values)]"
    using h unfolding rest Save_def sqliteSave_def
    by (simp add: replaceFirst_insert Let_def split: prod.splits)
  with rest show "\<exists>rest. query = ''INSERT INTO '' @ rest
         \<and> fst (snd (Save js t info v)) = [(''INSERT OR REPLACE INTO '' @ rest, values)]"
    by blast
next
  assume "driverName t \<noteq> ''mysql'' \<and> driverName t \<noteq> ''sqlite3''"
  then show "Save js t info v =
        (Panic (''Save operation is not supported for driver: '' @ driverName t), [], v)"
    by (simp add: Save_def)
qed

theorem C3_save_dispatch_witness:
  "fst (snd (Save sampleCodec (usersOn ''mysql'' okExecutor) userInfo newUser)) =
     [(''INSERT INTO users(name, tags) VALUES (?, ?) ON DUPLICATE KEY UPDATE id = ?, name = ?, tags = ?'',
       [PVal (VString ''a''), PNull, PVal (VInt KInt64 0), PVal (VString ''a''), PNull])]
   \<and> fst (snd (Save sampleCodec (usersOn ''sqlite3'' okExecutor) userInfo newUser)) =
     [(''INSERT OR REPLACE INTO users(name, tags) VALUES (?, ?)'', [PVal (VString ''a''), PNull])]
   \<and> Save sampleCodec (usersOn ''postgres'' okExecutor) userInfo newUser =
     (Panic ''Save operation is not supported for driver: postgres'', [], newUser)"
proof -
  let ?q = "''INSERT INTO users(name, tags) VALUES (?, ?)''"
  let ?vs = "[PVal (VString ''a''), PNull]"
  let ?vs' = "[PVal (VString ''a''), PNull, PVal (VInt KInt64 0), PVal (VString ''a''), PNull]"
  have cv: "collectValues sampleCodec newUser userInfo (names userInfo) ?vs = Return (?vs', None)"
    by (simp add: sample_defs eval_defs)
  have nm: "names userInfo = [''id'', ''name'', ''tags'']"
    by (simp add: userInfo_def)
  have d: "driverName (usersOn d e) = d" for d e
    by (simp add: usersOn_def)
  from C3_save_dispatch [of "usersOn ''mysql'' okExecutor" sampleCodec userInfo newUser ?q ?vs ?vs']
  have "fst (snd (Save sampleCodec (usersOn ''mysql'' okExecutor) userInfo newUser)) =
     [(?q @ '' ON DUPLICATE KEY UPDATE ''
          @ Join (map (\<lambda>c. c @ '' = ?'') (names userInfo)) '', '', ?vs')]"
    by (simp only: d prepare_newUser cv simp_thms)
  then have a: "fst (snd (Save sampleCodec (usersOn ''mysql'' okExecutor) userInfo newUser)) =
     [(''INSERT INTO users(name, tags) VALUES (?, ?) ON DUPLICATE KEY UPDATE id = ?, name = ?, tags = ?'',
       ?vs')]"
    by (simp add: nm)
  from C3_save_dispatch [of "usersOn ''sqlite3'' okExecutor" sampleCodec userInfo newUser ?q ?vs]
  have b: "fst (snd (Save sampleCodec (usersOn ''sqlite3'' okExecutor) userInfo newUser)) =
     [(''INSERT OR REPLACE INTO users(name, tags) VALUES (?, ?)'', ?vs)]"
    by (simp add: d prepare_newUser)
  from C3_save_dispatch [of "usersOn ''postgres'' okExecutor" sampleCodec userInfo newUser]
  have c: "Save sampleCodec (usersOn ''postgres'' okExecutor) userInfo newUser =
     (Panic ''Save operation is not supported for driver: postgres'', [], newUser)"
    by (simp add: d)
  from a b c show ?thesis by simp
qed

text \<open>
  C4. Let the metadata be consistent (the index paths are those of the column names, the
  names are distinct and have distinct paths, the JSON and nullable columns are persisted
  columns). For a nullable column that is not JSON-encoded and whose field holds the zero
  value of a comparable type: the write-direction codec emits SQL NULL, and whenever a row
  decodes into a fresh instance with that column's nullable wrapper not present, the
  decoded field is the same zero value.
\<close>

theorem C4_nullable_round_trip:
  assumes nul: "col \<in> set (nullableNames info)"
    and nj: "col \<notin> set (jsonNames info)"
    and idxs: "indexes info = map (indexOf info) (names info)"
    and dist: "distinct (names info)"
    and inj: "inj_on (indexOf info) (set (names info))"
    and jsub: "set (jsonNames info) \<subseteq> set (names info)"
    and nsub: "set (nullableNames info) \<subseteq> set (names info)"
    and cmp: "comparable (v (indexOf info col))"
    and zero: "v (indexOf info col) = zeroOf (v (indexOf info col))"
  shows "getFieldValueByName js v info col = Return (PNull, None)
       \<and> (decodeRow js info (DeepNew v) scanned = Return (e, None)
            \<and> slotAt scanned (IndexOfString (names info) col) = Return s
            \<and> notPresent s \<longrightarrow>
          e (indexOf info col) = v (indexOf info col))"
proof (intro conjI impI)
  show "getFieldValueByName js v info col = Return (PNull, None)"
    using nul nj isZeroValue_zero [OF cmp zero]
    by (simp add: getFieldValueByName_def IndexOfString_ge0_iff Let_def)
next
  let ?p = "indexOf info col"
  assume h: "decodeRow js info (DeepNew v) scanned = Return (e, None)
            \<and> slotAt scanned (IndexOfString (names info) col) = Return s
            \<and> notPresent s"
  from nul nsub have cin: "col \<in> set (names info)" by auto
  from h obtain e1 where
    j: "jsonLoop js info scanned (jsonNames info)
          (storeFields (DeepNew v) (indexes info) scanned) = Return (e1, None)"
    and n: "nullableLoop info scanned (nullableNames info) e1 = Return e"
    by (auto simp: decodeRow_def split: outcome.splits prod.splits option.splits)
  have same: "c = col" if "c \<in> set (names info)" "indexOf info c = ?p" for c
    using inj that cin by (auto dest: inj_onD)
  have st: "storeFields (DeepNew v) (indexes info) scanned ?p = DeepNew v ?p"
  proof (rule storeFields_other)
    fix i x
    assume i: "i < length (indexes info)" and "i < length scanned"
      and ip: "indexes info ! i = ?p"
    from i idxs have il: "i < length (names info)" by simp
    with ip idxs have "indexOf info (names info ! i) = ?p" by simp
    with il have "names info ! i = col" by (intro same) simp_all
    with IndexOfString_nth [OF dist il] have "IndexOfString (names info) col = int i" by simp
    with h have "scanned ! i = s" by (auto simp: slotAt_def split: if_splits)
    with h show "scanned ! i \<noteq> SField x" by auto
  qed
  have js: "e1 ?p = storeFields (DeepNew v) (indexes info) scanned ?p"
  proof (rule jsonLoop_other [OF j])
    fix c assume c: "c \<in> set (jsonNames info)"
    with jsub have "c \<in> set (names info)" by auto
    with same [of c] c nj show "indexOf info c \<noteq> ?p" by auto
  qed
  have nl: "e ?p = e1 ?p"
  proof (rule nullableLoop_other [OF n])
    fix c assume c: "c \<in> set (nullableNames info)" and "indexOf info c = ?p"
    with nsub same [of c] have "c = col" by auto
    with h show "\<exists>s. slotAt scanned (IndexOfString (names info) c) = Return s \<and> notPresent s"
      by auto
  qed
  from nl js st zero show "e ?p = v ?p"
    by (simp add: DeepNew_def)
qed

theorem C4_nullable_round_trip_witness:
  "getFieldValueByName sampleCodec draftNote noteInfo ''score'' = Return (PNull, None)
   \<and> decodeRow sampleCodec noteInfo (DeepNew draftNote)
        [SField (VInt KInt64 3), SField (VString ''t''), SNullInt64 False 0, SBytes ''[]'']
      = Return (storedNote, None)
   \<and> storedNote [2] = draftNote [2]
   \<and> draftNote [2] = VInt KInt32 0"
proof -
  let ?sc = "[SField (VInt KInt64 3), SField (VString ''t''), SNullInt64 False 0, SBytes ''[]'']"
  have ix: "indexOf noteInfo ''score'' = [2]"
    by (simp add: noteInfo_def indexOf_def)
  have nul: "''score'' \<in> set (nullableNames noteInfo)"
    and nj: "''score'' \<notin> set (jsonNames noteInfo)"
    and idxs: "indexes noteInfo = map (indexOf noteInfo) (names noteInfo)"
    and dist: "distinct (names noteInfo)"
    and inj: "inj_on (indexOf noteInfo) (set (names noteInfo))"
    and jsub: "set (jsonNames noteInfo) \<subseteq> set (names noteInfo)"
    and nsub: "set (nullableNames noteInfo) \<subseteq> set (names noteInfo)"
    by (simp_all add: noteInfo_def indexOf_def)
  have cmp: "comparable (draftNote (indexOf noteInfo ''score''))"
    and zero: "draftNote (indexOf noteInfo ''score'')
                 = zeroOf (draftNote (indexOf noteInfo ''score''))"
    by (simp_all add: ix draftNote_def)
  have sl: "slotAt ?sc (IndexOfString (names noteInfo) ''score'') = Return (SNullInt64 False 0)"
    by (simp add: slotAt_def noteInfo_def)
  have np: "notPresent (SNullInt64 False 0)"
    by simp
  from C4_nullable_round_trip
         [where col = "''score''" and info = noteInfo and v = draftNote and js = sampleCodec
            and scanned = ?sc and e = storedNote and s = "SNullInt64 False 0",
          OF nul nj idxs dist inj jsub nsub cmp zero] decode_stored sl np
  have "getFieldValueByName sampleCodec draftNote noteInfo ''score'' = Return (PNull, None)
        \<and> storedNote [2] = draftNote [2]"
    by (simp add: ix)
  moreover have "draftNote [2] = VInt KInt32 0"
    by (simp add: draftNote_def)
  ultimately show ?thesis
    using decode_stored by simp
qed

text \<open>
  C5. For a column marked both JSON-encoded and nullable, whenever serialization of the
  field succeeds with bytes \<open>data\<close>, the write-direction codec emits SQL NULL exactly
  when \<open>data\<close> is one of \<open>{}\<close>, \<open>[]\<close>, \<open>null\<close>, \<open>NULL\<close>, and emits \<open>data\<close> itself
  otherwise; for a JSON column not marked nullable it always emits \<open>data\<close>.
\<close>

theorem C5_json_nullable_encoding:
  assumes "col \<in> set (jsonNames info)"
    and "Marshal js (item (indexOf info col)) = Inr data"
  shows "getFieldValueByName js item info col =
           (if col \<in> set (nullableNames info) \<and> data \<in> {''{}'', ''[]'', ''null'', ''NULL''}
            then Return (PNull, None)
            else Return (PBytes data, None))"
  using assms
  by (simp add: getFieldValueByName_def IndexOfString_ge0_iff isEmpty_def)

theorem C5_json_nullable_encoding_witness:
  "''tags'' \<in> set (jsonNames userInfo)
   \<and> Marshal sampleCodec (newUser (indexOf userInfo ''tags'')) = Inr ''[]''
   \<and> getFieldValueByName sampleCodec newUser userInfo ''tags'' = Return (PNull, None)"
  using C5_json_nullable_encoding [of "''tags''" userInfo sampleCodec newUser "''[]''"]
  by (simp add: userInfo_def newUser_def sampleCodec_def indexOf_def)

text \<open>
  C6, as the code has it. Called with a pointer to a slice, when the query succeeds and
  every row scans and decodes into a fresh element, Select replaces the slice by its
  previous elements followed by the decoded elements, one per row in order; a nil slice
  stays nil when there is no row. Called with a nil pointer it panics and sends nothing.
  Whenever its outcome is an error or a panic, the caller's slice is as it was.
\<close>

theorem C6_select_appends:
  "(Query (exe t) (selectQueryText t info wh) args = (Some rs, None)
      \<and> list_all2 (\<lambda>r e. scanRow js info proto r = Return (e, None)) rs news \<longrightarrow>
      Select js t info proto (Some sliceValue) wh args =
        (Return None, [(selectQueryText t info wh, args)],
         Some (if sliceValue = None \<and> rs = [] then None
               else Some (elems sliceValue @ news))))
   \<and> Select js t info proto None wh args = (Panic ''cannot be set value'', [], None)
   \<and> (fst (Select js t info proto records wh args) \<noteq> Return None \<longrightarrow>
        snd (snd (Select js t info proto records wh args)) = records)"
proof (intro conjI impI)
  assume h: "Query (exe t) (selectQueryText t info wh) args = (Some rs, None)
      \<and> list_all2 (\<lambda>r e. scanRow js info proto r = Return (e, None)) rs news"
  then have len: "length rs = length news"
    by (auto dest: list_all2_lengthD)
  from h have "selectLoop js info proto rs sliceValue = Return (foldl Append sliceValue news, None)"
    by (simp add: selectLoop_all)
  with h len show "Select js t info proto (Some sliceValue) wh args =
        (Return None, [(selectQueryText t info wh, args)],
         Some (if sliceValue = None \<and> rs = [] then None
               else Some (elems sliceValue @ news)))"
    by (auto simp: Select_def Let_def foldl_Append)
next
  show "Select js t info proto None wh args = (Panic ''cannot be set value'', [], None)"
    by (simp add: Select_def)
next
  assume "fst (Select js t info proto records wh args) \<noteq> Return None"
  then show "snd (snd (Select js t info proto records wh args)) = records"
    by (auto simp: Select_def Let_def split: option.splits prod.splits outcome.splits)
qed

theorem C6_select_appends_witness:
  "Select sampleCodec (notesOn rowExecutor) noteInfo draftNote (Some (Some [draftNote])) [] [] =
     (Return None, [(''SELECT id, title, score, meta FROM notes'', [])],
      Some (Some [draftNote, storedNote, storedNote]))"
proof -
  have q: "Query (exe (notesOn rowExecutor)) (selectQueryText (notesOn rowExecutor) noteInfo []) []
             = (Some [storedRow, storedRow], None)"
    by (simp add: notesOn_def rowExecutor_def)
  have all: "list_all2 (\<lambda>r e. scanRow sampleCodec noteInfo draftNote r = Return (e, None))
               [storedRow, storedRow] [storedNote, storedNote]"
    by (simp add: scanRow_stored)
  from C6_select_appends
         [of "notesOn rowExecutor" noteInfo "[]" "[]" "[storedRow, storedRow]" sampleCodec
             draftNote "[storedNote, storedNote]" "Some [draftNote]"] q all
  show ?thesis
    by (simp add: selectQueryText_notes)
qed

text \<open>
  A nil slice is not allocated when the query yields no row, and a nil pointer is refused.
\<close>

theorem C6_nil_slice_stays_nil:
  "Select sampleCodec (notesOn okExecutor) noteInfo draftNote (Some None) [] [] =
     (Return None, [(''SELECT id, title, score, meta FROM notes'', [])], Some None)
   \<and> Select sampleCodec (notesOn okExecutor) noteInfo draftNote None [] [] =
     (Panic ''cannot be set value'', [], None)"
proof -
  have q: "Query (exe (notesOn okExecutor)) q a = (Some [], None)" for q a
    by (simp add: notesOn_def okExecutor_def)
  show ?thesis
    by (simp add: Select_def q selectQueryText_notes)
qed

text \<open>
  C7. With the non-primary-key columns being the persisted columns outside the primary
  key: Update on a type without primary-key columns panics and sends nothing. Otherwise,
  when encoding succeeds, it sends exactly one statement whose SET clause assigns every
  persisted non-primary-key column and whose WHERE clause conjoins equalities over the
  primary-key columns; the parameters are the encoded values of the non-primary-key
  columns in column order, followed by the primary-key field values in primary-key order.
\<close>

theorem C7_update_statement:
  assumes notPK: "notPKNames info = filter (\<lambda>c. c \<notin> set (pkNames info)) (names info)"
  shows "(pkNames info = [] \<longrightarrow>
           Update js t info v = (Panic ''no primary key. please use Insert operation'', []))
       \<and> (pkNames info \<noteq> []
            \<and> collectValues js v info (notPKNames info) [] = Return (args, None) \<longrightarrow>
           Update js t info v =
             (Return (snd (Exec (exe t)
                (''UPDATE '' @ name t @ '' SET ''
                   @ Join (map (\<lambda>c. c @ '' = ?'')
                       (filter (\<lambda>c. c \<notin> set (pkNames info)) (names info))) '', ''
                   @ '' WHERE '' @ Join (map (\<lambda>c. c @ '' = ?'') (pkNames info)) '' and '')
                (args @ map (\<lambda>c. PVal (v (indexOf info c))) (pkNames info)))),
              [(''UPDATE '' @ name t @ '' SET ''
                   @ Join (map (\<lambda>c. c @ '' = ?'')
                       (filter (\<lambda>c. c \<notin> set (pkNames info)) (names info))) '', ''
                   @ '' WHERE '' @ Join (map (\<lambda>c. c @ '' = ?'') (pkNames info)) '' and '',
                args @ map (\<lambda>c. PVal (v (indexOf info c))) (pkNames info))])
           \<and> list_all2 (\<lambda>c p. getFieldValueByName js v info c = Return (p, None))
                 (filter (\<lambda>c. c \<notin> set (pkNames info)) (names info)) args)"
proof (intro conjI impI)
  assume "pkNames info = []"
  then show "Update js t info v = (Panic ''no primary key. please use Insert operation'', [])"
    by (simp add: Update_def)
next
  assume h: "pkNames info \<noteq> []
            \<and> collectValues js v info (notPKNames info) [] = Return (args, None)"
  then show "Update js t info v =
             (Return (snd (Exec (exe t)
                (''UPDATE '' @ name t @ '' SET ''
                   @ Join (map (\<lambda>c. c @ '' = ?'')
                       (filter (\<lambda>c. c \<notin> set (pkNames info)) (names info))) '', ''
                   @ '' WHERE '' @ Join (map (\<lambda>c. c @ '' = ?'') (pkNames info)) '' and '')
                (args @ map (\<lambda>c. PVal (v (indexOf info c))) (pkNames info)))),
              [(''UPDATE '' @ name t @ '' SET ''
                   @ Join (map (\<lambda>c. c @ '' = ?'')
                       (filter (\<lambda>c. c \<notin> set (pkNames info)) (names info))) '', ''
                   @ '' WHERE '' @ Join (map (\<lambda>c. c @ '' = ?'') (pkNames info)) '' and '',
                args @ map (\<lambda>c. PVal (v (indexOf info c))) (pkNames info))])"
    by (simp add: Update_def assignments_Join Let_def notPK [symmetric] split: prod.splits)
  from h collectValues_ok [of js v info "notPKNames info" "[]" args]
  show "list_all2 (\<lambda>c p. getFieldValueByName js v info c = Return (p, None))
                 (filter (\<lambda>c. c \<notin> set (pkNames info)) (names info)) args"
    by (auto simp: notPK [symmetric])
qed

theorem C7_update_statement_witness:
  "Update sampleCodec (usersOn ''mysql'' okExecutor) userInfo oldUser =
     (Return None,
      [(''UPDATE users SET name = ?, tags = ? WHERE id = ?'',
        [PVal (VString ''b''), PNull, PVal (VInt KInt64 5)])])
   \<and> Update sampleCodec (usersOn ''mysql'' okExecutor)
        (userInfo\<lparr>pkNames := [], notPKNames := [''id'', ''name'', ''tags'']\<rparr>) oldUser =
     (Panic ''no primary key. please use Insert operation'', [])"
proof -
  let ?t = "usersOn ''mysql'' okExecutor"
  let ?info' = "userInfo\<lparr>pkNames := [], notPKNames := [''id'', ''name'', ''tags'']\<rparr>"
  have n1: "notPKNames userInfo = filter (\<lambda>c. c \<notin> set (pkNames userInfo)) (names userInfo)"
    by (simp add: userInfo_def)
  have n2: "notPKNames ?info' = filter (\<lambda>c. c \<notin> set (pkNames ?info')) (names ?info')"
    by (simp add: userInfo_def)
  have cv: "collectValues sampleCodec oldUser userInfo (notPKNames userInfo) []
              = Return ([PVal (VString ''b''), PNull], None)"
    by (simp add: sample_defs eval_defs)
  from C7_update_statement [OF n1, of sampleCodec ?t oldUser "[PVal (VString ''b''), PNull]"] cv
  have a: "Update sampleCodec ?t userInfo oldUser =
     (Return None,
      [(''UPDATE users SET name = ?, tags = ? WHERE id = ?'',
        [PVal (VString ''b''), PNull, PVal (VInt KInt64 5)])])"
    by (simp add: sample_defs indexOf_def)
  from C7_update_statement [OF n2, of sampleCodec ?t oldUser]
  have b: "Update sampleCodec ?t ?info' oldUser =
     (Panic ''no primary key. please use Insert operation'', [])"
    by simp
  from a b show ?thesis by simp
qed

text \<open>
  C8. Delete with an empty predicate panics and sends nothing to the executor; with a
  non-empty predicate it sends exactly the one statement
  \<open>DELETE FROM <table> WHERE <predicate>\<close> and returns the executor's error result.
\<close>

theorem C8_delete_requires_predicate:
  "Delete t wh args =
     (if wh = [] then (Panic ''where is empty'', [])
      else (Return (snd (Exec (exe t) (''DELETE FROM '' @ name t @ '' WHERE '' @ wh) args)),
            [(''DELETE FROM '' @ name t @ '' WHERE '' @ wh, args)]))"
  by (simp add: Delete_def Let_def split: prod.splits)

theorem C8_delete_requires_predicate_witness:
  "Delete (usersOn ''mysql'' okExecutor) [] [] = (Panic ''where is empty'', [])
   \<and> Delete (usersOn ''mysql'' okExecutor) ''id = ?'' [PVal (VInt KInt64 5)] =
       (Return None, [(''DELETE FROM users WHERE id = ?'', [PVal (VInt KInt64 5)])])"
  using C8_delete_requires_predicate [of "usersOn ''mysql'' okExecutor" "[]" "[]"]
    C8_delete_requires_predicate
      [of "usersOn ''mysql'' okExecutor" "''id = ?''" "[PVal (VInt KInt64 5)]"]
  by (simp add: usersOn_def okExecutor_def)

text \<open>
  C9. An executor failure is not always returned as an error: when \<open>Exec\<close> fails with a
  nil result, as \<open>database/sql\<close> does, and the record's auto-increment field is zero,
  both variants of Save go on to call \<open>LastInsertId\<close> on the nil result and panic.
  Insert, on the same record and executor, returns the executor's error.
\<close>

theorem C9_save_panics_on_exec_failure:
  "fst (Save sampleCodec (usersOn ''mysql'' failingExecutor) userInfo newUser) =
     Panic ''runtime error: invalid memory address or nil pointer dereference''
   \<and> fst (Save sampleCodec (usersOn ''sqlite3'' failingExecutor) userInfo newUser) =
     Panic ''runtime error: invalid memory address or nil pointer dereference''
   \<and> fst (Insert sampleCodec (usersOn ''mysql'' failingExecutor) userInfo newUser) =
     Return (Some (Err ''exec failed''))"
proof -
  have d: "driverName (usersOn d e) = d" for d e
    by (simp add: usersOn_def)
  have x: "Exec (exe (usersOn d failingExecutor)) q a = (None, Some (Err ''exec failed''))"
    for d q a
    by (simp add: usersOn_def failingExecutor_def)
  have z: "aiIsZero newUser userInfo = Return True"
    by (simp add: aiIsZero_def userInfo_def newUser_def indexOf_def)
  have cv: "collectValues sampleCodec newUser userInfo (names userInfo)
              [PVal (VString ''a''), PNull]
            = Return ([PVal (VString ''a''), PNull, PVal (VInt KInt64 0), PVal (VString ''a''),
                 PNull], None)"
    by (simp add: sample_defs eval_defs)
  have w: "writeBackId None userInfo newUser e =
             (Panic ''runtime error: invalid memory address or nil pointer dereference'', newUser)"
    for e
    by (simp add: writeBackId_def z)
  show ?thesis
    by (simp add: Save_def mysqlSave_def sqliteSave_def Insert_def d x cv w prepare_newUser)
qed

text \<open>
  C10. The save methods of the key-value store have no result. When the REPLACE
  statement fails, leaving the database as a failed statement does, each of SaveInt64,
  SaveData, SaveString, SavePB and SaveJSON leaves the store as it was and adds one line
  to the log; when protobuf marshalling fails, SavePB logs the failure and runs no
  statement. Nothing else reaches the caller.
\<close>

theorem C10_kv_save_failure_only_logged:
  "(ex (db r) ''REPLACE INTO kv(k,v,updated_at) VALUES(?1,?2,?3)''
        [AString key, AString (Sprint n), ATime (clock r)] = (db r, Some err) \<longrightarrow>
      SaveInt64 ex r lg key n = (r, lg @ [(key, [], err)]))
   \<and> (ex (db r) ''REPLACE INTO kv(k,v,updated_at) VALUES(?1,?2,?3)''
        [AString key, ABytes data, ATime (clock r)] = (db r, Some err) \<longrightarrow>
      SaveData ex r lg key data = (r, lg @ [(key, [], err)])
      \<and> SaveString ex r lg key data = (r, lg @ [(key, [], err)])
      \<and> (marshal msg = Inr data \<longrightarrow> SavePB marshal ex r lg key msg = (r, lg @ [(key, [], err)])))
   \<and> (marshal msg = Inl err \<longrightarrow>
      SavePB marshal ex r lg key msg = (r, lg @ [(key, ''Marshal: '', err)]))
   \<and> (ex (db r) ''REPLACE INTO kv(k,v,updated_at) VALUES(?1,?2,?3)''
        [AString key, JSON obj, ATime (clock r)] = (db r, Some err) \<longrightarrow>
      SaveJSON ex r lg key obj = (r, lg @ [(key, [], err)]))"
  by (simp add: SaveInt64_def SaveData_def SaveString_def SavePB_def SaveJSON_def
        replaceKV_failure)

theorem C10_kv_save_failure_only_logged_witness:
  "SaveInt64 closedExec sampleStore [] ''n'' 42
     = (sampleStore, [(''n'', [], Err ''sql: database is closed'')])
   \<and> SaveData closedExec sampleStore [] ''n'' ''x''
     = (sampleStore, [(''n'', [], Err ''sql: database is closed'')])
   \<and> SaveString closedExec sampleStore [] ''n'' ''x''
     = (sampleStore, [(''n'', [], Err ''sql: database is closed'')])
   \<and> SavePB failingMarshal openExec sampleStore [] ''n'' (VString ''m'')
     = (sampleStore, [(''n'', ''Marshal: '', Err ''proto: marshal failed'')])
   \<and> SaveJSON closedExec sampleStore [] ''n'' (Some (VString ''m''))
     = (sampleStore, [(''n'', [], Err ''sql: database is closed'')])
   \<and> db (fst (SaveInt64 openExec sampleStore [] ''n'' 42)) ''n'' = Some (AString ''42'')"
proof -
  let ?e = "Err ''sql: database is closed''"
  have c: "closedExec (db sampleStore) q args = (db sampleStore, Some ?e)" for q args
    by (simp add: closedExec_def)
  have m: "failingMarshal (VString ''m'') = Inl (Err ''proto: marshal failed'')"
    by (simp add: failingMarshal_def)
  have a: "SaveInt64 closedExec sampleStore [] ''n'' 42 = (sampleStore, [(''n'', [], ?e)])"
    and b: "SaveData closedExec sampleStore [] ''n'' ''x'' = (sampleStore, [(''n'', [], ?e)])"
    and b': "SaveString closedExec sampleStore [] ''n'' ''x'' = (sampleStore, [(''n'', [], ?e)])"
    and d: "SaveJSON closedExec sampleStore [] ''n'' (Some (VString ''m''))
              = (sampleStore, [(''n'', [], ?e)])"
    using C10_kv_save_failure_only_logged
            [of closedExec sampleStore "''n''" 42 ?e "[]" "''x''" failingMarshal "VString ''m''"
                "Some (VString ''m'')"]
    by (simp_all add: c)
  have p: "SavePB failingMarshal openExec sampleStore [] ''n'' (VString ''m'')
     = (sampleStore, [(''n'', ''Marshal: '', Err ''proto: marshal failed'')])"
    using C10_kv_save_failure_only_logged
            [of openExec sampleStore "''n''" 42 "Err ''proto: marshal failed''" "[]" "''x''"
                failingMarshal "VString ''m''" "Some (VString ''m'')"] m
    by simp
  have s42: "Sprint 42 = ''42''"
    by (simp add: Sprint_def)
  have o: "db (fst (SaveInt64 openExec sampleStore [] ''n'' 42)) ''n'' = Some (AString ''42'')"
    by (simp add: SaveInt64_def replaceKV_def openExec_def sampleStore_def s42)
  from a b b' p d o show ?thesis by simp
qed

end
